theory Spec2Isabelle
  imports Main
begin

section \<open>The structured-data view (gjson)\<close>

text \<open>
  The pollers read every upstream payload through \<^verbatim>\<open>gjson.Result\<close>. A JSON value is
  kept as a tree. A scalar (string, number, boolean) carries the two views the
  pollers take of it, \<^verbatim>\<open>String()\<close> and \<^verbatim>\<open>Int()\<close>; an array or object carries its raw
  text, which is what \<^verbatim>\<open>String()\<close> returns for it. A \<^verbatim>\<open>Result\<close> is \<open>None\<close> when the
  queried path does not exist.
\<close>

datatype json =
    JNull
  | JScalar string int
  | JArr string "json list"
  | JObj string "(string \<times> json) list"

type_synonym result = "json option"

definition gExists :: "result \<Rightarrow> bool" where
  "gExists r = (r \<noteq> None)"

definition gString :: "result \<Rightarrow> string" where
  "gString r =
     (case r of
        None \<Rightarrow> []
      | Some JNull \<Rightarrow> []
      | Some (JScalar s i) \<Rightarrow> s
      | Some (JArr raw xs) \<Rightarrow> raw
      | Some (JObj raw ms) \<Rightarrow> raw)"

definition gInt :: "result \<Rightarrow> int" where
  "gInt r = (case r of Some (JScalar s i) \<Rightarrow> i | _ \<Rightarrow> 0)"

text \<open>\<^verbatim>\<open>Array()\<close>: empty for null, the elements of an array, and the value itself as the
  only element for anything else.\<close>

definition gArray :: "result \<Rightarrow> result list" where
  "gArray r =
     (case r of
        None \<Rightarrow> []
      | Some JNull \<Rightarrow> []
      | Some (JArr raw xs) \<Rightarrow> map Some xs
      | Some v \<Rightarrow> [Some v])"

text \<open>A path component that is a decimal number indexes an array.\<close>

definition digit_val :: "char \<Rightarrow> nat option" where
  "digit_val c =
     (let n = (of_char c :: nat) in if 48 \<le> n \<and> n \<le> 57 then Some (n - 48) else None)"

fun index_of_key :: "nat \<Rightarrow> string \<Rightarrow> nat option" where
  "index_of_key acc [] = Some acc"
| "index_of_key acc (c # cs) =
     (case digit_val c of None \<Rightarrow> None | Some d \<Rightarrow> index_of_key (10 * acc + d) cs)"

definition gGet1 :: "result \<Rightarrow> string \<Rightarrow> result" where
  "gGet1 r k =
     (case r of
        Some (JObj raw ms) \<Rightarrow> map_of ms k
      | Some (JArr raw xs) \<Rightarrow>
          (if k = [] then None
           else case index_of_key 0 k of
                  None \<Rightarrow> None
                | Some i \<Rightarrow> if i < length xs then Some (xs ! i) else None)
      | _ \<Rightarrow> None)"

text \<open>\<^verbatim>\<open>Get(path)\<close>: the dotted path \<^verbatim>\<open>a.b.c\<close> of the source is written as the list
  of its components. Every path in the source is made of plain keys and the index
  \<^verbatim>\<open>0\<close>; a missing component gives the result that does not exist, and so does any
  component of a scalar.\<close>

definition gGet :: "result \<Rightarrow> string list \<Rightarrow> result" where
  "gGet r path = foldl gGet1 r path"

section \<open>Formatting\<close>

text \<open>The decimal rendering of \<^verbatim>\<open>%d\<close> and of \<^verbatim>\<open>strconv.FormatInt(x, 10)\<close>.\<close>

definition digit_char :: "nat \<Rightarrow> char" where
  "digit_char d = (''0123456789'' ! d)"

fun digits :: "nat \<Rightarrow> string" where
  "digits n = (if n < 10 then [digit_char n] else digits (n div 10) @ [digit_char (n mod 10)])"

definition FormatInt :: "int \<Rightarrow> string" where
  "FormatInt x = (if x < 0 then CHR ''-'' # digits (nat (- x)) else digits (nat x))"

section \<open>Constants\<close>

definition infoUrl :: string where
  "infoUrl = ''https://api.bilibili.com/x/space/acc/info''"

definition liveUrlPrefix :: string where
  "liveUrlPrefix = ''https://live.bilibili.com/''"

definition spaceUrl :: string where
  "spaceUrl = ''https://api.bilibili.com/x/polymer/web-dynamic/v1/feed/space''"

definition dynamicUrlPrefix :: string where
  "dynamicUrlPrefix = ''https://t.bilibili.com/''"

definition videoUrlPrefix :: string where
  "videoUrlPrefix = ''https://www.bilibili.com/video/''"

definition articleUrlPrefix :: string where
  "articleUrlPrefix = ''https://www.bilibili.com/read/cv''"

definition musicUrlPrefix :: string where
  "musicUrlPrefix = ''https://www.bilibili.com/audio/au''"

text \<open>\<^verbatim>\<open>int64(interval/time.Second)\<close>\<close>

definition interval :: int where
  "interval = 10"

definition BiliLiveMsg :: int where
  "BiliLiveMsg = 1"

definition BiliDynMsg :: int where
  "BiliDynMsg = 2"

definition TikTokLiveMsg :: int where
  "TikTokLiveMsg = 4"

text \<open>The source's string literals outside ASCII, as their UTF-8 bytes (a Go string is
  a byte sequence).\<close>

definition title_fetch_failed :: string where
  "title_fetch_failed =
     [CHR 0xE8, CHR 0x8E, CHR 0xB7, CHR 0xE5, CHR 0x8F, CHR 0x96, CHR 0xE7, CHR 0x9B, CHR 0xB4,
      CHR 0xE6, CHR 0x92, CHR 0xAD, CHR 0xE9, CHR 0x97, CHR 0xB4, CHR 0xE7, CHR 0x8A, CHR 0xB6,
      CHR 0xE6, CHR 0x80, CHR 0x81, CHR 0xE5, CHR 0xA4, CHR 0xB1, CHR 0xE8, CHR 0xB4, CHR 0xA5]"

definition title_went_live :: string where
  "title_went_live =
     [CHR 0xE5, CHR 0xBC, CHR 0x80, CHR 0xE6, CHR 0x92, CHR 0xAD, CHR 0xE4, CHR 0xBA, CHR 0x86]"

definition title_went_offline :: string where
  "title_went_offline =
     [CHR 0xE4, CHR 0xB8, CHR 0x8B, CHR 0xE6, CHR 0x92, CHR 0xAD, CHR 0xE4, CHR 0xBA, CHR 0x86]"

text \<open>\<^verbatim>\<open>fmt.Sprintf\<close> of the format "title" + fullwidth colon + \<^verbatim>\<open>"%s"\<close> in quotes.\<close>

definition text_title :: "string \<Rightarrow> string" where
  "text_title t =
     [CHR 0xE6, CHR 0xA0, CHR 0x87, CHR 0xE9, CHR 0xA2, CHR 0x98, CHR 0xEF, CHR 0xBC, CHR 0x9A,
      CHR 0x22] @ t @ [CHR 0x22]"

definition text_offline :: string where
  "text_offline =
     [CHR 0xF0, CHR 0x9F, CHR 0x98, CHR 0xAD, CHR 0xF0, CHR 0x9F, CHR 0x98, CHR 0xAD,
      CHR 0xF0, CHR 0x9F, CHR 0x98, CHR 0xAD]"

definition msg_no_live_room :: string where
  "msg_no_live_room =
     [CHR 0xE5, CHR 0x93, CHR 0x8D, CHR 0xE5, CHR 0xBA, CHR 0x94, CHR 0xE4, CHR 0xBD, CHR 0x93,
      CHR 0xE4, CHR 0xB8, CHR 0xAD, CHR 0xE6, CHR 0x97, CHR 0xA0] @ ''live_room'' @
     [CHR 0xE5, CHR 0xAD, CHR 0x97, CHR 0xE6, CHR 0xAE, CHR 0xB5]"

text \<open>\<^verbatim>\<open>fmt.Sprintf("[error] %s, code=%d", msg, code)\<close>\<close>

definition text_error :: "string \<Rightarrow> int \<Rightarrow> string" where
  "text_error m c = ''[error] '' @ m @ '', code='' @ FormatInt c"

section \<open>Records\<close>

text \<open>\<^verbatim>\<open>push.Msg\<close>, with the fields the pollers fill. Times are Unix seconds; a nil
  slice is the empty list.\<close>

record Msg =
  Times :: int
  Flag :: int
  Author :: string
  Title :: string
  Text :: string
  Img :: "string list"
  Src :: string

text \<open>\<^verbatim>\<open>LiveInfo\<close> with its embedded \<^verbatim>\<open>BaseInfo\<close>. The fields \<^verbatim>\<open>Msg\<close> and \<^verbatim>\<open>Title\<close>
  carry a suffix, as \<open>Msg\<close> has fields of these names.\<close>

record LiveInfo =
  Code :: int
  Msg_info :: string
  Mid :: int
  MidStr :: string
  Uname :: string
  LiveStatus :: bool
  RoomId :: int
  RoomIdStr :: string
  Title_info :: string
  Cover :: string

definition LiveInfo_Reset :: "LiveInfo \<Rightarrow> LiveInfo" where
  "LiveInfo_Reset l =
     l\<lparr>Code := 0, Msg_info := [], Mid := 0, MidStr := [], Uname := [], LiveStatus := False,
       RoomId := 0, RoomIdStr := [], Title_info := [], Cover := []\<rparr>"

record DynamicInfo =
  types :: string
  id_info :: string
  text_info :: string
  img :: "string list"
  author :: string
  src :: string
  times_info :: int

definition DynamicInfo_Reset :: "DynamicInfo \<Rightarrow> DynamicInfo" where
  "DynamicInfo_Reset d =
     d\<lparr>types := [], id_info := [], text_info := [], img := [], author := [], src := []\<rparr>"

section \<open>The environment\<close>

datatype qval = QInt int | QStr string

datatype error =
    ErrTransport string
  | ErrEmptyRespData
  | ErrWrap error string
  | ErrNew string

text \<open>
  What the pollers consume from outside during one tick:
  \<^item> \<open>req_Get url query\<close> is the outcome of \<^verbatim>\<open>req.Get\<close>: a transport error, or the
    response buffer (\<open>None\<close> for a nil buffer);
  \<^item> \<open>gjson_Parse text\<close> is the result that gjson's queries read in a text, for
    \<^verbatim>\<open>gjson.ParseBytes\<close> and for the text given to \<^verbatim>\<open>gjson.Get\<close>;
  \<^item> \<open>liveInfoPool\<close> and \<open>dynInfoPool\<close> are the records that the next \<^verbatim>\<open>Get\<close> on the
    two pools recycles. Every \<^verbatim>\<open>Put\<close> in the source follows a \<^verbatim>\<open>Reset\<close> of the record,
    and \<^verbatim>\<open>New\<close> gives the zero record, which \<^verbatim>\<open>Reset\<close> leaves as it is; so what \<^verbatim>\<open>Get\<close>
    returns is the \<^verbatim>\<open>Reset\<close> of some record.
\<close>

record env =
  req_Get :: "string \<Rightarrow> (string \<times> qval) list \<Rightarrow> error + string option"
  gjson_Parse :: "string \<Rightarrow> result"
  liveInfoPool :: LiveInfo
  dynInfoPool :: DynamicInfo

definition liveInfoPool_Get :: "env \<Rightarrow> LiveInfo" where
  "liveInfoPool_Get e = LiveInfo_Reset (liveInfoPool e)"

definition dynInfoPool_Get :: "env \<Rightarrow> DynamicInfo" where
  "dynInfoPool_Get e = DynamicInfo_Reset (dynInfoPool e)"

section \<open>Reading a response\<close>

definition checkResp :: "env \<Rightarrow> string option \<Rightarrow> error + result" where
  "checkResp e buf =
     (case buf of
        None \<Rightarrow> Inl ErrEmptyRespData
      | Some bs \<Rightarrow> if length bs = 0 then Inl ErrEmptyRespData else Inr (gjson_Parse e bs))"

definition checkBiliData :: "result \<Rightarrow> result \<times> int \<times> string" where
  "checkBiliData r =
     (let code = gInt (gGet r [''code''])
      in if code \<noteq> 0 then (None, code, gString (gGet r [''msg'']))
         else (gGet r [''data''], 0, []))"

section \<open>The status poller\<close>

definition getInfo :: "env \<Rightarrow> int \<Rightarrow> error + LiveInfo" where
  "getInfo e mid =
     (case req_Get e infoUrl [(''mid'', QInt mid)] of
        Inl err \<Rightarrow> Inl err
      | Inr body \<Rightarrow>
          (case checkResp e body of
             Inl err \<Rightarrow> Inl (ErrWrap err ''read bili resp data'')
           | Inr result \<Rightarrow>
               (let info = liveInfoPool_Get e;
                    (data, code, msg) = checkBiliData result
                in if code \<noteq> 0 then Inr (info\<lparr>Code := code, Msg_info := msg\<rparr>)
                   else
                     (let info = info\<lparr>Mid := mid, Uname := gString (gGet data [''name''])\<rparr>;
                          liveRoom = gGet data [''live_room'']
                      in if \<not> gExists liveRoom
                         then Inr (info\<lparr>Code := 400, Msg_info := msg_no_live_room\<rparr>)
                         else Inr (info\<lparr>
                                LiveStatus := (gInt (gGet liveRoom [''liveStatus'']) = 1),
                                RoomId := gInt (gGet liveRoom [''roomid'']),
                                Title_info := gString (gGet liveRoom [''title'']),
                                Cover := gString (gGet liveRoom [''cover''])\<rparr>)))))"

text \<open>The live-status table \<^verbatim>\<open>map[int64]bool\<close>: reading an absent key gives false.\<close>

definition living_at :: "(int \<rightharpoonup> bool) \<Rightarrow> int \<Rightarrow> bool" where
  "living_at living k = (case living k of None \<Rightarrow> False | Some b \<Rightarrow> b)"

text \<open>The body of the loop over \<^verbatim>\<open>b.uid\<close> in \<^verbatim>\<open>BiliLiveSource.Send\<close>, for one account:
  the Messages sent on the channel and the table afterwards.\<close>

definition Send_live_id :: "env \<Rightarrow> int \<Rightarrow> int \<Rightarrow> (int \<rightharpoonup> bool) \<Rightarrow> Msg list \<times> (int \<rightharpoonup> bool)" where
  "Send_live_id e now ident living =
     (case getInfo e ident of
        Inl err \<Rightarrow> ([], living)
      | Inr info \<Rightarrow>
          if Code info = 0 \<and> LiveStatus info = living_at living (Mid info) then ([], living)
          else
            (let msg = \<lparr>Times = now, Flag = BiliLiveMsg, Author = Uname info,
                        Title = [], Text = [], Img = [], Src = []\<rparr>
             in if Code info \<noteq> 0
                then ([msg\<lparr>Title := title_fetch_failed,
                           Text := text_error (Msg_info info) (Code info)\<rparr>], living)
                else if LiveStatus info
                then ([msg\<lparr>Title := title_went_live,
                           Text := text_title (Title_info info),
                           Img := [Cover info],
                           Src := liveUrlPrefix @ FormatInt (RoomId info)\<rparr>],
                      living(Mid info \<mapsto> True))
                else ([msg\<lparr>Title := title_went_offline, Text := text_offline\<rparr>],
                      living(Mid info \<mapsto> False))))"

text \<open>One tick of \<^verbatim>\<open>BiliLiveSource.Send\<close>: the accounts in order.\<close>

fun Send_live_tick :: "env \<Rightarrow> int \<Rightarrow> int list \<Rightarrow> (int \<rightharpoonup> bool) \<Rightarrow> Msg list \<times> (int \<rightharpoonup> bool)" where
  "Send_live_tick e now [] living = ([], living)"
| "Send_live_tick e now (ident # uid) living =
     (let (ms, living') = Send_live_id e now ident living;
          (ms', living'') = Send_live_tick e now uid living'
      in (ms @ ms', living''))"


section \<open>The item classifier\<close>

definition DynamicTypeForward :: string where
  "DynamicTypeForward = ''DYNAMIC_TYPE_FORWARD''"

definition DynamicTypeDraw :: string where
  "DynamicTypeDraw = ''DYNAMIC_TYPE_DRAW''"

definition DynamicTypeAV :: string where
  "DynamicTypeAV = ''DYNAMIC_TYPE_AV''"

definition DynamicTypeWord :: string where
  "DynamicTypeWord = ''DYNAMIC_TYPE_WORD''"

definition DynamicTypeArticle :: string where
  "DynamicTypeArticle = ''DYNAMIC_TYPE_ARTICLE''"

definition DynamicTypeMusic :: string where
  "DynamicTypeMusic = ''DYNAMIC_TYPE_MUSIC''"

definition DynamicTypePGC :: string where
  "DynamicTypePGC = ''DYNAMIC_TYPE_PGC''"

definition DynamicTypeLive :: string where
  "DynamicTypeLive = ''DYNAMIC_TYPE_LIVE_RCMD''"

definition title_post :: string where
  "title_post =
     [CHR 0xE5, CHR 0x8F, CHR 0x91, CHR 0xE5, CHR 0xB8, CHR 0x83, CHR 0xE5, CHR 0x8A, CHR 0xA8,
      CHR 0xE6, CHR 0x80, CHR 0x81]"

definition title_video :: string where
  "title_video =
     [CHR 0xE6, CHR 0x8A, CHR 0x95, CHR 0xE7, CHR 0xA8, CHR 0xBF, CHR 0xE8, CHR 0xA7, CHR 0x86,
      CHR 0xE9, CHR 0xA2, CHR 0x91]"

definition title_forward :: string where
  "title_forward =
     [CHR 0xE8, CHR 0xBD, CHR 0xAC, CHR 0xE5, CHR 0x8F, CHR 0x91, CHR 0xE5, CHR 0x8A, CHR 0xA8,
      CHR 0xE6, CHR 0x80, CHR 0x81]"

definition title_share_live :: string where
  "title_share_live =
     [CHR 0xE5, CHR 0x88, CHR 0x86, CHR 0xE4, CHR 0xBA, CHR 0xAB, CHR 0xE7, CHR 0x9B, CHR 0xB4,
      CHR 0xE6, CHR 0x92, CHR 0xAD, CHR 0xE9, CHR 0x97, CHR 0xB4]"

definition title_article :: string where
  "title_article =
     [CHR 0xE6, CHR 0x8A, CHR 0x95, CHR 0xE7, CHR 0xA8, CHR 0xBF, CHR 0xE4, CHR 0xB8, CHR 0x93,
      CHR 0xE6, CHR 0xA0, CHR 0x8F]"

definition title_music :: string where
  "title_music =
     [CHR 0xE6, CHR 0x8A, CHR 0x95, CHR 0xE7, CHR 0xA8, CHR 0xBF, CHR 0xE9, CHR 0x9F, CHR 0xB3,
      CHR 0xE9, CHR 0xA2, CHR 0x91]"

definition text_unhandled :: string where
  "text_unhandled =
     [CHR 0xE6, CHR 0x9C, CHR 0xAA, CHR 0xE5, CHR 0xA4, CHR 0x84, CHR 0xE7, CHR 0x90, CHR 0x86,
      CHR 0xE7, CHR 0x9A, CHR 0x84, CHR 0xE5, CHR 0x8A, CHR 0xA8, CHR 0xE6, CHR 0x80, CHR 0x81,
      CHR 0xE7, CHR 0xB1, CHR 0xBB, CHR 0xE5, CHR 0x9E, CHR 0x8B]"

text \<open>The two repost formats: commentary, newline, "shared", the author in quotes, "'s
  live room", newline, the original's body; and commentary, space, newline, "reposted
  from", fullwidth colon, \<^verbatim>\<open>@\<close>, the author, newline, the original's body.\<close>

definition text_share_live :: "string \<Rightarrow> string \<Rightarrow> string \<Rightarrow> string" where
  "text_share_live t a b =
     t @ [CHR 0x0A, CHR 0xE5, CHR 0x88, CHR 0x86, CHR 0xE4, CHR 0xBA, CHR 0xAB, CHR 0x22] @ a @
     [CHR 0x22, CHR 0xE7, CHR 0x9A, CHR 0x84, CHR 0xE7, CHR 0x9B, CHR 0xB4, CHR 0xE6, CHR 0x92,
      CHR 0xAD, CHR 0xE9, CHR 0x97, CHR 0xB4, CHR 0x0A] @ b"

definition text_forward :: "string \<Rightarrow> string \<Rightarrow> string \<Rightarrow> string" where
  "text_forward t a b =
     t @ [CHR 0x20, CHR 0x0A, CHR 0xE8, CHR 0xBD, CHR 0xAC, CHR 0xE5, CHR 0x8F, CHR 0x91,
          CHR 0xE8, CHR 0x87, CHR 0xAA, CHR 0xEF, CHR 0xBC, CHR 0x9A, CHR 0x40] @ a @
     [CHR 0x0A] @ b"

text \<open>\<^verbatim>\<open>fmt.Sprintf("%s\n%s", title, desc)\<close>\<close>

definition text_lines :: "string \<Rightarrow> string \<Rightarrow> string" where
  "text_lines t d = t @ [CHR 0x0A] @ d"

text \<open>\<open>times_info\<close> holds \<^verbatim>\<open>time.Unix(pubTs, 0)\<close> as its Unix seconds, which is what
  \<^verbatim>\<open>info.times.Unix()\<close> reads back. \<open>None\<close> is the nil result.\<close>

function parseDynamic :: "env \<Rightarrow> result \<Rightarrow> DynamicInfo option" where
  "parseDynamic e item =
     (let types = gString (gGet item [''type'']);
          info = dynInfoPool_Get e;
          info = info\<lparr>id_info := gString (gGet item [''id_str''])\<rparr>;
          info = info\<lparr>src := dynamicUrlPrefix @ id_info info\<rparr>;
          author = gGet item [''modules'', ''module_author''];
          info = info\<lparr>author := gString (gGet author [''name''])\<rparr>;
          pubTs = gInt (gGet author [''pub_ts'']);
          info = info\<lparr>times_info := pubTs\<rparr>;
          dynamic = gGet item [''modules'', ''module_dynamic'']
      in if types = DynamicTypeWord then
           Some (info\<lparr>types := title_post,
                      text_info := gString (gGet dynamic [''desc'', ''text''])\<rparr>)
         else if types = DynamicTypeDraw then
           (let info = info\<lparr>types := title_post,
                              text_info := gString (gGet dynamic [''desc'', ''text''])\<rparr>;
                img = gArray (gGet dynamic [''major'', ''draw'', ''items''])
            in Some (info\<lparr>img := DynamicInfo.img info @
                                  map (\<lambda>x. gString (gGet x [''src''])) img\<rparr>))
         else if types = DynamicTypeAV then
           (let info = info\<lparr>types := title_video\<rparr>;
                archive = gGet dynamic [''major'', ''archive''];
                info = info\<lparr>id_info := gString (gGet archive [''bvid''])\<rparr>;
                info = info\<lparr>src := videoUrlPrefix @ id_info info\<rparr>;
                desc = gString (gGet archive [''desc'']);
                title = gString (gGet archive [''title''])
            in Some (info\<lparr>text_info := text_lines title desc,
                          img := [gString (gGet archive [''cover''])]\<rparr>))
         else if types = DynamicTypeForward then
           (let info = info\<lparr>types := title_forward\<rparr>;
                text = gString (gGet dynamic [''desc'', ''text'']);
                orig = gGet item [''orig'']
            in case parseDynamic e orig of
                 None \<Rightarrow> None
               | Some origInfo \<Rightarrow>
                   (let info =
                          (if DynamicInfo.types origInfo = DynamicTypeLive
                           then info\<lparr>types := title_share_live,
                                     text_info := text_share_live text (DynamicInfo.author origInfo)
                                                    (text_info origInfo)\<rparr>
                           else info\<lparr>text_info := text_forward text (DynamicInfo.author origInfo)
                                                    (text_info origInfo)\<rparr>)
                    in Some (info\<lparr>img := DynamicInfo.img origInfo\<rparr>)))
         else if types = DynamicTypeArticle then
           (let info = info\<lparr>types := title_article\<rparr>;
                article = gGet dynamic [''major'', ''article''];
                info = info\<lparr>id_info := FormatInt (gInt (gGet article [''id'']))\<rparr>;
                info = info\<lparr>src := articleUrlPrefix @ id_info info\<rparr>;
                desc = gString (gGet article [''desc'']);
                title = gString (gGet article [''title''])
            in Some (info\<lparr>text_info := text_lines title desc,
                          img := [gString (gGet article [''covers'', ''0''])]\<rparr>))
         else if types = DynamicTypeMusic then
           (let info = info\<lparr>types := title_music\<rparr>;
                music = gGet dynamic [''major'', ''music''];
                info = info\<lparr>id_info := FormatInt (gInt (gGet music [''id'']))\<rparr>;
                info = info\<lparr>src := musicUrlPrefix @ id_info info\<rparr>
            in Some (info\<lparr>text_info := gString (gGet music [''title'']),
                          img := [gString (gGet music [''cover''])]\<rparr>))
         else if types = DynamicTypePGC then
           (let pgc = gGet dynamic [''major'', ''pgc'']
            in Some (info\<lparr>text_info := gString (gGet pgc [''title'']),
                          img := [gString (gGet pgc [''cover''])]\<rparr>))
         else if types = DynamicTypeLive then
           (let info = info\<lparr>types := DynamicTypeLive\<rparr>;
                content = gString (gGet dynamic [''major'', ''live_rcmd'', ''content''])
            in if content = [] then None
               else
                 (let liveInfo = gGet (gjson_Parse e content) [''live_play_info'']
                  in Some (info\<lparr>text_info := text_title (gString (gGet liveInfo [''title''])),
                                img := [gString (gGet liveInfo [''cover''])]\<rparr>)))
         else Some (info\<lparr>types := title_post, text_info := text_unhandled\<rparr>))"
  by pat_completeness auto
termination
proof (relation "measure (\<lambda>(e, item). case item of None \<Rightarrow> 0 | Some j \<Rightarrow> Suc (size j))")
  show "wf (measure (\<lambda>(e, item). case item of None \<Rightarrow> 0 | Some j \<Rightarrow> Suc (size j)))"
    by simp
next
  fix e :: env and item :: result
  fix x xa xb xc xd xe xf xg xh xi xj xk
  assume fwd: "x = gString (gGet item [''type''])" "x = DynamicTypeForward"
    and orig: "xk = gGet item [''orig'']"
  have sub: "size c < size (JObj raw ms)" if "map_of ms k = Some c" for c raw ms and k :: string
  proof -
    from that have "(k, c) \<in> set ms"
      by (rule map_of_SomeD)
    then have "size_prod (\<lambda>_. 0) size (k, c) \<le> size_list (size_prod (\<lambda>_. 0) size) ms"
      by (rule size_list_estimation') simp
    then show ?thesis
      by simp
  qed
  have elt: "size c < size (JArr raw xs)" if "c \<in> set xs" for c raw xs
  proof -
    from that have "size c \<le> size_list size xs"
      by (rule size_list_estimation') simp
    then show ?thesis
      by simp
  qed
  have smaller: "size c < size j" if "gGet1 (Some j) k = Some c" for j k c
  proof (cases j)
    case (JObj raw ms)
    with that sub [of ms k _ raw] show ?thesis
      by (auto simp: gGet1_def)
  next
    case (JArr raw xs)
    with that elt [of _ xs raw] show ?thesis
      by (auto simp: gGet1_def split: option.splits if_splits)
  qed (use that in \<open>simp_all add: gGet1_def\<close>)
  show "((e, xk), (e, item)) \<in> measure (\<lambda>(e, item). case item of None \<Rightarrow> 0 | Some j \<Rightarrow> Suc (size j))"
  proof (cases item)
    case None
    with fwd show ?thesis
      by (simp add: gGet_def gGet1_def gString_def DynamicTypeForward_def)
  next
    case (Some j)
    show ?thesis
    proof (cases "gGet1 (Some j) ''orig''")
      case None
      with Some orig show ?thesis
        by (simp add: gGet_def)
    next
      case (Some c)
      with \<open>item = Some j\<close> orig smaller [of j "''orig''"]
      show ?thesis
        by (simp add: gGet_def)
    qed
  qed
qed


section \<open>The feed poller\<close>

text \<open>The watermark table \<^verbatim>\<open>map[int64]int64\<close>: reading an absent key gives 0.\<close>

definition lastTable_at :: "(int \<rightharpoonup> int) \<Rightarrow> int \<Rightarrow> int" where
  "lastTable_at lastTable k = (case lastTable k of None \<Rightarrow> 0 | Some v \<Rightarrow> v)"

text \<open>The value of an \<^verbatim>\<open>int64\<close> computation, wrapping around.\<close>

definition wrap64 :: "int \<Rightarrow> int" where
  "wrap64 x = (x + 2 ^ 63) mod 2 ^ 64 - 2 ^ 63"

definition max_int64 :: "int \<Rightarrow> int \<Rightarrow> int" where
  "max_int64 a b = (if a > b then a else b)"

text \<open>The loop over the items in \<^verbatim>\<open>space\<close>, with its two variables \<^verbatim>\<open>infos\<close> and
  \<^verbatim>\<open>newest\<close>; \<open>last_ts\<close> is the source's \<^verbatim>\<open>last\<close>.\<close>

fun space_items ::
  "env \<Rightarrow> int \<Rightarrow> result list \<Rightarrow> DynamicInfo list \<Rightarrow> int \<Rightarrow> DynamicInfo list \<times> int" where
  "space_items e last_ts [] infos newest = (infos, newest)"
| "space_items e last_ts (item # items) infos newest =
     (case parseDynamic e item of
        Some info \<Rightarrow>
          if types info = DynamicTypeLive then space_items e last_ts items infos newest
          else
            (let second = times_info info;
                 newest = max_int64 newest second
             in if second > last_ts then space_items e last_ts items (infos @ [info]) newest
                else space_items e last_ts items infos newest)
      | None \<Rightarrow> space_items e last_ts items infos newest)"

definition space ::
  "env \<Rightarrow> int \<Rightarrow> int \<Rightarrow> (int \<rightharpoonup> int) \<Rightarrow> (error + DynamicInfo list) \<times> (int \<rightharpoonup> int)" where
  "space e ident now lastTable =
     (case req_Get e spaceUrl
             [(''offset'', QStr []), (''host_mid'', QInt ident),
              (''timezone_offset'', QStr ''-480'')] of
        Inl err \<Rightarrow> (Inl err, lastTable)
      | Inr resp \<Rightarrow>
          (case checkResp e resp of
             Inl err \<Rightarrow> (Inl (ErrWrap err ''read bili resp data''), lastTable)
           | Inr result \<Rightarrow>
               (let (data, code, msg) = checkBiliData result
                in if code \<noteq> 0 then (Inl (ErrNew msg), lastTable)
                   else
                     (let items = gArray (gGet data [''items'']);
                          last = lastTable_at lastTable ident;
                          last = (if last = 0 then wrap64 (now - interval) else last);
                          (infos, newest) = space_items e last items [] 0;
                          last = max_int64 last newest
                      in (Inr infos, lastTable(ident \<mapsto> last))))))"

text \<open>The Message that \<^verbatim>\<open>BiliDynamicSource.Send\<close> builds from a record.\<close>

definition dynMsg :: "DynamicInfo \<Rightarrow> Msg" where
  "dynMsg info =
     \<lparr>Times = times_info info, Flag = BiliDynMsg, Author = author info, Title = types info,
      Text = text_info info, Img = img info, Src = src info\<rparr>"

text \<open>The body of the loop over \<^verbatim>\<open>b.uid\<close> in \<^verbatim>\<open>BiliDynamicSource.Send\<close>, for one
  account, and one tick.\<close>

definition Send_dyn_id :: "env \<Rightarrow> int \<Rightarrow> int \<Rightarrow> (int \<rightharpoonup> int) \<Rightarrow> Msg list \<times> (int \<rightharpoonup> int)" where
  "Send_dyn_id e now ident lastTable =
     (case space e ident now lastTable of
        (Inl err, lastTable') \<Rightarrow> ([], lastTable')
      | (Inr infos, lastTable') \<Rightarrow> (map dynMsg infos, lastTable'))"

fun Send_dyn_tick :: "env \<Rightarrow> int \<Rightarrow> int list \<Rightarrow> (int \<rightharpoonup> int) \<Rightarrow> Msg list \<times> (int \<rightharpoonup> int)" where
  "Send_dyn_tick e now [] lastTable = ([], lastTable)"
| "Send_dyn_tick e now (ident # uid) lastTable =
     (let (ms, lastTable') = Send_dyn_id e now ident lastTable;
          (ms', lastTable'') = Send_dyn_tick e now uid lastTable'
      in (ms @ ms', lastTable''))"

text \<open>The \<^verbatim>\<open>select\<close> loop of a poller, run on the events it receives: the context is
  cancelled, or the ticker fires at a time, with the environment of that tick.\<close>

datatype event = Done | Tick int env

fun Send_live :: "int list \<Rightarrow> event list \<Rightarrow> (int \<rightharpoonup> bool) \<Rightarrow> Msg list \<times> (int \<rightharpoonup> bool)" where
  "Send_live uid [] living = ([], living)"
| "Send_live uid (Done # evs) living = ([], living)"
| "Send_live uid (Tick now e # evs) living =
     (let (ms, living') = Send_live_tick e now uid living;
          (ms', living'') = Send_live uid evs living'
      in (ms @ ms', living''))"

fun Send_dyn :: "int list \<Rightarrow> event list \<Rightarrow> (int \<rightharpoonup> int) \<Rightarrow> Msg list \<times> (int \<rightharpoonup> int)" where
  "Send_dyn uid [] lastTable = ([], lastTable)"
| "Send_dyn uid (Done # evs) lastTable = ([], lastTable)"
| "Send_dyn uid (Tick now e # evs) lastTable =
     (let (ms, lastTable') = Send_dyn_tick e now uid lastTable;
          (ms', lastTable'') = Send_dyn uid evs lastTable'
      in (ms @ ms', lastTable''))"

section \<open>The orchestrator\<close>

text \<open>
  A Sink is its \<^verbatim>\<open>Receive\<close>: it takes a Message and returns an error or nil. The
  dispatch loop of \<^verbatim>\<open>Bot.Run\<close> is run on what its \<^verbatim>\<open>select\<close> receives: the
  cancellation, or a Message from the channel. Each goroutine it starts makes one call
  of \<^verbatim>\<open>Receive\<close> and prints the error if there is one; the loop does not wait for it.
  The goroutines are kept as the calls they make, in the order they are started.
\<close>

type_synonym Sink = "Msg \<Rightarrow> string option"

datatype select_case = CtxDone | Recv Msg

datatype effect = Received nat Msg | Printed string

definition deliver :: "nat \<Rightarrow> Sink \<Rightarrow> Msg \<Rightarrow> effect list" where
  "deliver i s msg =
     Received i msg # (case s msg of None \<Rightarrow> [] | Some err \<Rightarrow> [Printed err])"

fun dispatch :: "nat \<Rightarrow> Sink list \<Rightarrow> Msg \<Rightarrow> effect list" where
  "dispatch i [] msg = []"
| "dispatch i (s # sinks) msg = deliver i s msg @ dispatch (Suc i) sinks msg"

fun Run :: "Sink list \<Rightarrow> select_case list \<Rightarrow> effect list" where
  "Run sinks [] = []"
| "Run sinks (CtxDone # cs) = []"
| "Run sinks (Recv msg # cs) = dispatch 0 sinks msg @ Run sinks cs"

text \<open>The Messages that the Sink at position \<open>i\<close> was called with, and the Messages
  taken from the channel before the cancellation.\<close>

fun received_by :: "nat \<Rightarrow> effect list \<Rightarrow> Msg list" where
  "received_by i [] = []"
| "received_by i (Received j msg # es) =
     (if i = j then msg # received_by i es else received_by i es)"
| "received_by i (Printed err # es) = received_by i es"

fun dequeued :: "select_case list \<Rightarrow> Msg list" where
  "dequeued [] = []"
| "dequeued (CtxDone # cs) = []"
| "dequeued (Recv msg # cs) = msg # dequeued cs"

section \<open>Vocabulary of the properties\<close>

text \<open>A fetch fails when the transport fails or the body is nil or empty.\<close>

definition fetch_failed :: "error + string option \<Rightarrow> bool" where
  "fetch_failed resp =
     (case resp of Inl err \<Rightarrow> True | Inr None \<Rightarrow> True | Inr (Some bs) \<Rightarrow> bs = [])"

definition info_query :: "int \<Rightarrow> (string \<times> qval) list" where
  "info_query mid = [(''mid'', QInt mid)]"

definition space_query :: "int \<Rightarrow> (string \<times> qval) list" where
  "space_query ident =
     [(''offset'', QStr []), (''host_mid'', QInt ident), (''timezone_offset'', QStr ''-480'')]"

text \<open>The fetch of a URL succeeds and its body parses to \<open>r\<close>.\<close>

definition fetched :: "env \<Rightarrow> string \<Rightarrow> (string \<times> qval) list \<Rightarrow> result \<Rightarrow> bool" where
  "fetched e url q r =
     (case req_Get e url q of
        Inr (Some bs) \<Rightarrow> bs \<noteq> [] \<and> gjson_Parse e bs = r
      | _ \<Rightarrow> False)"

definition upstream_code :: "result \<Rightarrow> int" where
  "upstream_code r = gInt (gGet r [''code''])"

definition upstream_msg :: "result \<Rightarrow> string" where
  "upstream_msg r = gString (gGet r [''msg''])"

definition live_room :: "result \<Rightarrow> result" where
  "live_room r = gGet (gGet r [''data'']) [''live_room'']"

definition observed_live :: "result \<Rightarrow> bool" where
  "observed_live r = (gInt (gGet (live_room r) [''liveStatus'']) = 1)"

definition feed_items :: "result \<Rightarrow> result list" where
  "feed_items r = gArray (gGet (gGet r [''data'']) [''items''])"

definition item_type :: "result \<Rightarrow> string" where
  "item_type item = gString (gGet item [''type''])"

definition item_text :: "result \<Rightarrow> string" where
  "item_text item = gString (gGet (gGet item [''modules'', ''module_dynamic'']) [''desc'', ''text''])"

definition live_content :: "result \<Rightarrow> string" where
  "live_content item =
     gString (gGet (gGet item [''modules'', ''module_dynamic''])
                [''major'', ''live_rcmd'', ''content''])"

definition item_author :: "result \<Rightarrow> string" where
  "item_author item = gString (gGet (gGet item [''modules'', ''module_author'']) [''name''])"

definition item_pub_ts :: "result \<Rightarrow> int" where
  "item_pub_ts item = gInt (gGet (gGet item [''modules'', ''module_author'']) [''pub_ts''])"

definition item_id :: "result \<Rightarrow> string" where
  "item_id item = gString (gGet item [''id_str''])"

definition item_major :: "result \<Rightarrow> string \<Rightarrow> result" where
  "item_major item k = gGet (gGet item [''modules'', ''module_dynamic'']) [''major'', k]"

definition known_types :: "string list" where
  "known_types =
     [DynamicTypeWord, DynamicTypeDraw, DynamicTypeAV, DynamicTypeForward, DynamicTypeArticle,
      DynamicTypeMusic, DynamicTypePGC, DynamicTypeLive]"

text \<open>The records of the items that a poll counts: the items that classify, the live
  announcements left out.\<close>

definition processed :: "env \<Rightarrow> result list \<Rightarrow> DynamicInfo list" where
  "processed e items =
     filter (\<lambda>info. types info \<noteq> DynamicTypeLive) (List.map_filter (parseDynamic e) items)"

text \<open>The floor that a poll compares publish times with: the account's watermark, or
  the time of the poll less the interval when the table reads 0 for the account.\<close>

definition floor_ts :: "(int \<rightharpoonup> int) \<Rightarrow> int \<Rightarrow> int \<Rightarrow> int" where
  "floor_ts lastTable ident now =
     (if lastTable_at lastTable ident = 0 then wrap64 (now - interval)
      else lastTable_at lastTable ident)"

section \<open>Scenarios\<close>

text \<open>Payloads as gjson shows them. The raw text of objects and arrays is left empty:
  no path read below ends at one.\<close>

definition jstr :: "string \<Rightarrow> json" where
  "jstr s = JScalar s 0"

definition jnum :: "int \<Rightarrow> json" where
  "jnum n = JScalar (FormatInt n) n"

definition jobj :: "(string \<times> json) list \<Rightarrow> json" where
  "jobj ms = JObj [] ms"

definition jarr :: "json list \<Rightarrow> json" where
  "jarr xs = JArr [] xs"

definition new_LiveInfo :: LiveInfo where
  "new_LiveInfo =
     \<lparr>Code = 0, Msg_info = [], Mid = 0, MidStr = [], Uname = [], LiveStatus = False,
      RoomId = 0, RoomIdStr = [], Title_info = [], Cover = []\<rparr>"

definition new_DynamicInfo :: DynamicInfo where
  "new_DynamicInfo =
     \<lparr>types = [], id_info = [], text_info = [], img = [], author = [], src = [],
      times_info = - 62135596800\<rparr>"

text \<open>An environment in which every fetch returns a body that parses to \<open>p\<close>, one in
  which the transport fails, and one in which the body is empty.\<close>

definition env_body :: "json \<Rightarrow> env" where
  "env_body p =
     \<lparr>req_Get = (\<lambda>url q. Inr (Some ''body'')), gjson_Parse = (\<lambda>bs. Some p),
      liveInfoPool = new_LiveInfo, dynInfoPool = new_DynamicInfo\<rparr>"

definition env_down :: env where
  "env_down =
     \<lparr>req_Get = (\<lambda>url q. Inl (ErrTransport ''timeout'')), gjson_Parse = (\<lambda>bs. None),
      liveInfoPool = new_LiveInfo, dynInfoPool = new_DynamicInfo\<rparr>"

definition env_empty_body :: env where
  "env_empty_body =
     \<lparr>req_Get = (\<lambda>url q. Inr (Some [])), gjson_Parse = (\<lambda>bs. None),
      liveInfoPool = new_LiveInfo, dynInfoPool = new_DynamicInfo\<rparr>"

text \<open>An environment in which the text handed to \<^verbatim>\<open>gjson.Get\<close> is not JSON.\<close>

definition env_unparseable :: env where
  "env_unparseable =
     \<lparr>req_Get = (\<lambda>url q. Inr (Some ''body'')), gjson_Parse = (\<lambda>bs. None),
      liveInfoPool = new_LiveInfo, dynInfoPool = new_DynamicInfo\<rparr>"

definition info_payload :: "int \<Rightarrow> json" where
  "info_payload liveStatus =
     jobj [(''code'', jnum 0),
           (''data'', jobj [(''name'', jstr ''streamer''),
              (''live_room'', jobj [(''liveStatus'', jnum liveStatus), (''roomid'', jnum 100),
                 (''title'', jstr ''hello''), (''cover'', jstr ''c.jpg'')])])]"



definition author_module :: "string \<Rightarrow> int \<Rightarrow> json" where
  "author_module name ts = jobj [(''name'', jstr name), (''pub_ts'', jnum ts)]"

definition word_item :: "string \<Rightarrow> int \<Rightarrow> string \<Rightarrow> json" where
  "word_item name ts body =
     jobj [(''type'', jstr ''DYNAMIC_TYPE_WORD''), (''id_str'', jstr ''w1''),
           (''modules'', jobj [(''module_author'', author_module name ts),
              (''module_dynamic'', jobj [(''desc'', jobj [(''text'', jstr body)])])])]"

definition forward_item :: "string \<Rightarrow> int \<Rightarrow> string \<Rightarrow> json \<Rightarrow> json" where
  "forward_item name ts commentary orig =
     jobj [(''type'', jstr ''DYNAMIC_TYPE_FORWARD''), (''id_str'', jstr ''f1''),
           (''modules'', jobj [(''module_author'', author_module name ts),
              (''module_dynamic'', jobj [(''desc'', jobj [(''text'', jstr commentary)])])]),
           (''orig'', orig)]"

definition live_item :: "string \<Rightarrow> int \<Rightarrow> string \<Rightarrow> json" where
  "live_item name ts content =
     jobj [(''type'', jstr ''DYNAMIC_TYPE_LIVE_RCMD''), (''id_str'', jstr ''l1''),
           (''modules'', jobj [(''module_author'', author_module name ts),
              (''module_dynamic'', jobj [(''major'',
                 jobj [(''live_rcmd'', jobj [(''content'', jstr content)])])])])]"

definition pgc_item :: "string \<Rightarrow> int \<Rightarrow> string \<Rightarrow> string \<Rightarrow> json" where
  "pgc_item name ts title cover =
     jobj [(''type'', jstr ''DYNAMIC_TYPE_PGC''), (''id_str'', jstr ''p1''),
           (''modules'', jobj [(''module_author'', author_module name ts),
              (''module_dynamic'', jobj [(''major'',
                 jobj [(''pgc'', jobj [(''title'', jstr title), (''cover'', jstr cover)])])])])]"

definition other_item :: "string \<Rightarrow> int \<Rightarrow> json" where
  "other_item name ts =
     jobj [(''type'', jstr ''DYNAMIC_TYPE_COMMON_SQUARE''), (''id_str'', jstr ''o1''),
           (''modules'', jobj [(''module_author'', author_module name ts)])]"

definition feed_payload :: "json list \<Rightarrow> json" where
  "feed_payload items = jobj [(''code'', jnum 0), (''data'', jobj [(''items'', jarr items)])]"

text \<open>The feed of three plain posts published 5, 20000 and 1 seconds before \<open>T\<close>.\<close>

definition three_posts :: "int \<Rightarrow> json" where
  "three_posts T =
     feed_payload [word_item ''Bob'' (T - 5) ''one'', word_item ''Bob'' (T - 20000) ''two'',
                   word_item ''Bob'' (T - 1) ''three'']"

definition live_play :: json where
  "live_play =
     jobj [(''live_play_info'', jobj [(''title'', jstr ''stream''), (''cover'', jstr ''l.jpg'')])]"

text \<open>The text of \<open>live_play\<close>, and an environment for the classifier in which gjson
  reads \<open>live_play\<close> in that text, an object with no member in \<^verbatim>\<open>{}\<close>, and nothing in
  any other text; the other text used below holds no brace.\<close>

definition quoted :: "string \<Rightarrow> string" where
  "quoted s = CHR 0x22 # s @ [CHR 0x22]"

definition live_play_text :: string where
  "live_play_text =
     ''{'' @ quoted ''live_play_info'' @ '':{'' @ quoted ''title'' @ '':'' @ quoted ''stream'' @
     '','' @ quoted ''cover'' @ '':'' @ quoted ''l.jpg'' @ ''}}''"

definition env_gjson :: env where
  "env_gjson =
     \<lparr>req_Get = (\<lambda>url q. Inl (ErrTransport ''timeout'')),
      gjson_Parse = (\<lambda>bs. if bs = live_play_text then Some live_play
                          else if bs = ''{}'' then Some (jobj []) else None),
      liveInfoPool = new_LiveInfo, dynInfoPool = new_DynamicInfo\<rparr>"

text \<open>The format that claim C7 words for the repost of a live announcement, with the
  source's words: the commentary, a newline, "shared", the original's author with no
  quotes, "'s live room", a newline, the original's body.\<close>

definition claimed_share_live :: "string \<Rightarrow> string \<Rightarrow> string \<Rightarrow> string" where
  "claimed_share_live t a b =
     t @ [CHR 0x0A, CHR 0xE5, CHR 0x88, CHR 0x86, CHR 0xE4, CHR 0xBA, CHR 0xAB] @ a @
     [CHR 0xE7, CHR 0x9A, CHR 0x84, CHR 0xE7, CHR 0x9B, CHR 0xB4, CHR 0xE6, CHR 0x92,
      CHR 0xAD, CHR 0xE9, CHR 0x97, CHR 0xB4, CHR 0x0A] @ b"

definition one_old_post :: json where
  "one_old_post = feed_payload [word_item ''Bob'' 50 ''old'']"

definition no_watermark :: "int \<rightharpoonup> int" where
  "no_watermark = Map.empty"

definition watermark_7_at_100 :: "int \<rightharpoonup> int" where
  "watermark_7_at_100 = [7 \<mapsto> 100]"

definition failing_sink :: Sink where
  "failing_sink msg = Some ''delivery failed''"

definition working_sink :: Sink where
  "working_sink msg = None"

definition msg_of_title :: "string \<Rightarrow> Msg" where
  "msg_of_title t =
     \<lparr>Times = 0, Flag = BiliDynMsg, Author = [], Title = t, Text = [], Img = [], Src = []\<rparr>"

declare parseDynamic.simps [simp del]

section \<open>Properties of the status poller\<close>

lemma LiveInfo_Reset_zero:
  "LiveInfo_Reset l = \<lparr>Code = 0, Msg_info = [], Mid = 0, MidStr = [], Uname = [],
     LiveStatus = False, RoomId = 0, RoomIdStr = [], Title_info = [], Cover = []\<rparr>"
  by (simp add: LiveInfo_Reset_def)

lemma getInfo_failed:
  "fetch_failed (req_Get e infoUrl (info_query mid)) \<Longrightarrow> \<exists>err. getInfo e mid = Inl err"
  by (auto simp: fetch_failed_def getInfo_def checkResp_def info_query_def
      split: sum.splits option.splits)

lemma getInfo_fetched:
  assumes "fetched e infoUrl (info_query mid) r"
  shows "getInfo e mid =
     (if upstream_code r \<noteq> 0
      then Inr ((liveInfoPool_Get e)\<lparr>Code := upstream_code r, Msg_info := upstream_msg r\<rparr>)
      else if \<not> gExists (live_room r)
      then Inr ((liveInfoPool_Get e)\<lparr>Mid := mid, Uname := gString (gGet (gGet r [''data'']) [''name'']),
                 Code := 400, Msg_info := msg_no_live_room\<rparr>)
      else Inr ((liveInfoPool_Get e)\<lparr>Mid := mid, Uname := gString (gGet (gGet r [''data'']) [''name'']),
                 LiveStatus := observed_live r,
                 RoomId := gInt (gGet (live_room r) [''roomid'']),
                 Title_info := gString (gGet (live_room r) [''title'']),
                 Cover := gString (gGet (live_room r) [''cover''])\<rparr>))"
  using assms
  by (auto simp: fetched_def getInfo_def checkResp_def checkBiliData_def upstream_code_def
      upstream_msg_def live_room_def observed_live_def Let_def info_query_def
      split: sum.splits option.splits)

lemma Send_live_id_went_live:
  assumes "fetched e infoUrl (info_query ident) r" "upstream_code r = 0" "gExists (live_room r)"
    "observed_live r" "\<not> living_at living ident"
  shows "Send_live_id e now ident living =
      ([\<lparr>Times = now, Flag = BiliLiveMsg,
         Author = gString (gGet (gGet r [''data'']) [''name'']),
         Title = title_went_live,
         Text = text_title (gString (gGet (live_room r) [''title''])),
         Img = [gString (gGet (live_room r) [''cover''])],
         Src = liveUrlPrefix @ FormatInt (gInt (gGet (live_room r) [''roomid'']))\<rparr>],
       living(ident \<mapsto> True))"
  using assms(2-) getInfo_fetched [OF assms(1)]
  by (simp add: Send_live_id_def liveInfoPool_Get_def LiveInfo_Reset_zero)

lemma Send_live_id_went_offline:
  assumes "fetched e infoUrl (info_query ident) r" "upstream_code r = 0" "gExists (live_room r)"
    "\<not> observed_live r" "living_at living ident"
  shows "Send_live_id e now ident living =
      ([\<lparr>Times = now, Flag = BiliLiveMsg,
         Author = gString (gGet (gGet r [''data'']) [''name'']),
         Title = title_went_offline, Text = text_offline, Img = [], Src = []\<rparr>],
       living(ident \<mapsto> False))"
  using assms(2-) getInfo_fetched [OF assms(1)]
  by (simp add: Send_live_id_def liveInfoPool_Get_def LiveInfo_Reset_zero)

lemma Send_live_id_failed:
  assumes "fetch_failed (req_Get e infoUrl (info_query ident))"
  shows "Send_live_id e now ident living = ([], living)"
proof -
  from assms obtain err where "getInfo e ident = Inl err"
    using getInfo_failed by blast
  then show ?thesis
    by (simp add: Send_live_id_def)
qed

lemma Send_live_id_same:
  assumes "fetched e infoUrl (info_query ident) r" "upstream_code r = 0" "gExists (live_room r)"
    "observed_live r = living_at living ident"
  shows "Send_live_id e now ident living = ([], living)"
  using assms(2-) getInfo_fetched [OF assms(1)]
  by (simp add: Send_live_id_def liveInfoPool_Get_def LiveInfo_Reset_zero)

lemma Send_live_id_observed:
  assumes "fetched e infoUrl (info_query ident) r" "upstream_code r = 0" "gExists (live_room r)"
  shows "living_at (snd (Send_live_id e now ident living)) ident = observed_live r"
  using assms(2-) getInfo_fetched [OF assms(1)]
  by (simp add: Send_live_id_def liveInfoPool_Get_def LiveInfo_Reset_zero living_at_def Let_def)

lemma Send_live_id_other:
  assumes "k \<noteq> ident"
  shows "snd (Send_live_id e now ident living) k = living k"
proof (cases "getInfo e ident")
  case (Inl err)
  then show ?thesis
    by (simp add: Send_live_id_def)
next
  case (Inr info)
  have "Code info = 0 \<Longrightarrow> Mid info = ident"
    using Inr
    by (auto simp: getInfo_def Let_def liveInfoPool_Get_def LiveInfo_Reset_zero
        split: sum.splits prod.splits if_splits)
  with Inr assms show ?thesis
    by (simp add: Send_live_id_def Let_def)
qed

lemma Send_live_tick_other:
  "k \<notin> set uid \<Longrightarrow> snd (Send_live_tick e now uid living) k = living k"
proof (induction uid arbitrary: living)
  case Nil
  show ?case by simp
next
  case (Cons a uid)
  then have "snd (Send_live_tick e now uid (snd (Send_live_id e now a living))) k =
      snd (Send_live_id e now a living) k"
    by simp
  also from Cons.prems have "\<dots> = living k"
    by (simp add: Send_live_id_other)
  finally show ?case
    by (simp add: split_beta)
qed

text \<open>
  Claim C1. For an account whose entry in the live-status table reads false (an absent
  entry reads false), a fetch that succeeds with upstream code 0 and reports the room as
  live sends exactly one Message, titled "went live", whose body is the word "title", a
  fullwidth colon and the stream's title in double quotes, with the cover as the only
  image and the link \<open>liveUrlPrefix\<close> followed by the room id in decimal, and sets the
  entry to true. The titles and bodies are given as the bytes of the source's literals. For an account whose entry reads true, a fetch that
  reports the room as not live sends exactly one Message, titled "went offline", with
  the fixed body, and sets the entry to false. A fetch that fails (transport error, nil
  or empty body) sends nothing and leaves the table as it is.
\<close>

theorem status_transitions:
  "(fetched e infoUrl (info_query ident) r \<and> upstream_code r = 0 \<and> gExists (live_room r) \<and>
      observed_live r \<and> \<not> living_at living ident \<longrightarrow>
    Send_live_id e now ident living =
      ([\<lparr>Times = now, Flag = 1,
         Author = gString (gGet (gGet r [''data'']) [''name'']),
         Title = [CHR 0xE5, CHR 0xBC, CHR 0x80, CHR 0xE6, CHR 0x92, CHR 0xAD, CHR 0xE4, CHR 0xBA, CHR 0x86],
         Text = [CHR 0xE6, CHR 0xA0, CHR 0x87, CHR 0xE9, CHR 0xA2, CHR 0x98, CHR 0xEF, CHR 0xBC, CHR 0x9A,
                 CHR 0x22] @
                gString (gGet (live_room r) [''title'']) @ [CHR 0x22],
         Img = [gString (gGet (live_room r) [''cover''])],
         Src = ''https://live.bilibili.com/'' @
               FormatInt (gInt (gGet (live_room r) [''roomid'']))\<rparr>],
       living(ident \<mapsto> True))) \<and>
   (fetched e infoUrl (info_query ident) r \<and> upstream_code r = 0 \<and> gExists (live_room r) \<and>
      \<not> observed_live r \<and> living_at living ident \<longrightarrow>
    Send_live_id e now ident living =
      ([\<lparr>Times = now, Flag = 1,
         Author = gString (gGet (gGet r [''data'']) [''name'']),
         Title = [CHR 0xE4, CHR 0xB8, CHR 0x8B, CHR 0xE6, CHR 0x92, CHR 0xAD, CHR 0xE4, CHR 0xBA, CHR 0x86],
         Text = [CHR 0xF0, CHR 0x9F, CHR 0x98, CHR 0xAD, CHR 0xF0, CHR 0x9F, CHR 0x98, CHR 0xAD,
                 CHR 0xF0, CHR 0x9F, CHR 0x98, CHR 0xAD],
         Img = [], Src = []\<rparr>],
       living(ident \<mapsto> False))) \<and>
   (fetch_failed (req_Get e infoUrl (info_query ident)) \<longrightarrow>
    Send_live_id e now ident living = ([], living))"
proof (intro conjI impI)
  assume "fetched e infoUrl (info_query ident) r \<and> upstream_code r = 0 \<and>
    gExists (live_room r) \<and> observed_live r \<and> \<not> living_at living ident"
  then show "Send_live_id e now ident living =
      ([\<lparr>Times = now, Flag = 1,
         Author = gString (gGet (gGet r [''data'']) [''name'']),
         Title = [CHR 0xE5, CHR 0xBC, CHR 0x80, CHR 0xE6, CHR 0x92, CHR 0xAD, CHR 0xE4, CHR 0xBA, CHR 0x86],
         Text = [CHR 0xE6, CHR 0xA0, CHR 0x87, CHR 0xE9, CHR 0xA2, CHR 0x98, CHR 0xEF, CHR 0xBC, CHR 0x9A,
                 CHR 0x22] @
                gString (gGet (live_room r) [''title'']) @ [CHR 0x22],
         Img = [gString (gGet (live_room r) [''cover''])],
         Src = ''https://live.bilibili.com/'' @
               FormatInt (gInt (gGet (live_room r) [''roomid'']))\<rparr>],
       living(ident \<mapsto> True))"
    using Send_live_id_went_live [of e ident r living now]
    by (simp add: title_went_live_def text_title_def liveUrlPrefix_def BiliLiveMsg_def)
next
  assume "fetched e infoUrl (info_query ident) r \<and> upstream_code r = 0 \<and>
    gExists (live_room r) \<and> \<not> observed_live r \<and> living_at living ident"
  then show "Send_live_id e now ident living =
      ([\<lparr>Times = now, Flag = 1,
         Author = gString (gGet (gGet r [''data'']) [''name'']),
         Title = [CHR 0xE4, CHR 0xB8, CHR 0x8B, CHR 0xE6, CHR 0x92, CHR 0xAD, CHR 0xE4, CHR 0xBA, CHR 0x86],
         Text = [CHR 0xF0, CHR 0x9F, CHR 0x98, CHR 0xAD, CHR 0xF0, CHR 0x9F, CHR 0x98, CHR 0xAD,
                 CHR 0xF0, CHR 0x9F, CHR 0x98, CHR 0xAD],
         Img = [], Src = []\<rparr>],
       living(ident \<mapsto> False))"
    using Send_live_id_went_offline [of e ident r living now]
    by (simp add: title_went_offline_def text_offline_def BiliLiveMsg_def)
next
  assume "fetch_failed (req_Get e infoUrl (info_query ident))"
  then show "Send_live_id e now ident living = ([], living)"
    by (rule Send_live_id_failed)
qed

text \<open>The definitions that the scenarios unfold.\<close>

lemmas scen = env_body_def env_down_def env_empty_body_def info_payload_def fetched_def info_query_def
  upstream_code_def live_room_def observed_live_def gGet_def gGet1_def gInt_def gString_def gExists_def
  jobj_def jnum_def jstr_def jarr_def living_at_def fetch_failed_def

theorem status_transitions_witness:
  "Send_live_id (env_body (info_payload 1)) 1000 42 Map.empty =
     ([\<lparr>Times = 1000, Flag = 1, Author = ''streamer'',
        Title = [CHR 0xE5, CHR 0xBC, CHR 0x80, CHR 0xE6, CHR 0x92, CHR 0xAD, CHR 0xE4, CHR 0xBA, CHR 0x86],
        Text = [CHR 0xE6, CHR 0xA0, CHR 0x87, CHR 0xE9, CHR 0xA2, CHR 0x98, CHR 0xEF, CHR 0xBC, CHR 0x9A,
                 CHR 0x22] @ ''hello'' @ [CHR 0x22],
        Img = [''c.jpg''],
        Src = ''https://live.bilibili.com/100''\<rparr>], [42 \<mapsto> True]) \<and>
   Send_live_id (env_body (info_payload 0)) 1010 42 [42 \<mapsto> True] =
     ([\<lparr>Times = 1010, Flag = 1, Author = ''streamer'',
        Title = [CHR 0xE4, CHR 0xB8, CHR 0x8B, CHR 0xE6, CHR 0x92, CHR 0xAD, CHR 0xE4, CHR 0xBA, CHR 0x86],
        Text = [CHR 0xF0, CHR 0x9F, CHR 0x98, CHR 0xAD, CHR 0xF0, CHR 0x9F, CHR 0x98, CHR 0xAD,
                 CHR 0xF0, CHR 0x9F, CHR 0x98, CHR 0xAD],
        Img = [], Src = []\<rparr>], [42 \<mapsto> False]) \<and>
   Send_live_id env_down 1020 42 [42 \<mapsto> True] = ([], [42 \<mapsto> True]) \<and>
   Send_live_id env_empty_body 1020 42 [42 \<mapsto> True] = ([], [42 \<mapsto> True])"
  using status_transitions [of "env_body (info_payload 1)" 42 "Some (info_payload 1)" Map.empty 1000]
    status_transitions [of "env_body (info_payload 0)" 42 "Some (info_payload 0)" "[42 \<mapsto> True]" 1010]
    status_transitions [of env_down 42 None "[42 \<mapsto> True]" 1020]
    status_transitions [of env_empty_body 42 None "[42 \<mapsto> True]" 1020]
  by (simp add: scen FormatInt_def digit_char_def)



text \<open>
  Claim C2. When a fetch succeeds with upstream code 0 and the observed live status is
  the account's entry in the table (an absent entry reads false), nothing is sent and
  the table stays as it is. Hence the second of two successful polls of an account that
  observe the same status sends nothing, whatever happened to the entries of other
  accounts in between (\<open>Send_live_tick_other\<close>: polls of other accounts leave the
  entry alone).
\<close>

theorem unchanged_status_silent:
  "(fetched e infoUrl (info_query ident) r \<and> upstream_code r = 0 \<and> gExists (live_room r) \<and>
      observed_live r = living_at living ident \<longrightarrow>
    Send_live_id e now ident living = ([], living)) \<and>
   (fetched e1 infoUrl (info_query ident) r1 \<and> upstream_code r1 = 0 \<and> gExists (live_room r1) \<and>
    fetched e2 infoUrl (info_query ident) r2 \<and> upstream_code r2 = 0 \<and> gExists (live_room r2) \<and>
    observed_live r2 = observed_live r1 \<and>
    living' ident = snd (Send_live_id e1 now1 ident living1) ident \<longrightarrow>
    Send_live_id e2 now2 ident living' = ([], living'))"
proof (intro conjI impI)
  assume "fetched e infoUrl (info_query ident) r \<and> upstream_code r = 0 \<and> gExists (live_room r) \<and>
      observed_live r = living_at living ident"
  then show "Send_live_id e now ident living = ([], living)"
    using Send_live_id_same by blast
next
  assume a: "fetched e1 infoUrl (info_query ident) r1 \<and> upstream_code r1 = 0 \<and>
    gExists (live_room r1) \<and>
    fetched e2 infoUrl (info_query ident) r2 \<and> upstream_code r2 = 0 \<and> gExists (live_room r2) \<and>
    observed_live r2 = observed_live r1 \<and>
    living' ident = snd (Send_live_id e1 now1 ident living1) ident"
  then have "living_at living' ident = living_at (snd (Send_live_id e1 now1 ident living1)) ident"
    by (simp add: living_at_def)
  also from a have "\<dots> = observed_live r1"
    using Send_live_id_observed by blast
  finally have "observed_live r2 = living_at living' ident"
    using a by simp
  with a show "Send_live_id e2 now2 ident living' = ([], living')"
    using Send_live_id_same by blast
qed

theorem unchanged_status_silent_witness:
  "Send_live_id (env_body (info_payload 0)) 1000 42 Map.empty = ([], Map.empty) \<and>
   Send_live_id (env_body (info_payload 1)) 1010 42
     (snd (Send_live_id (env_body (info_payload 1)) 1000 42 Map.empty)) = ([], [42 \<mapsto> True])"
  using unchanged_status_silent [of "env_body (info_payload 0)" 42 "Some (info_payload 0)" Map.empty
      1000 "env_body (info_payload 1)" "Some (info_payload 1)" "env_body (info_payload 1)"
      "Some (info_payload 1)" "snd (Send_live_id (env_body (info_payload 1)) 1000 42 Map.empty)"
      1000 Map.empty 1010]
    Send_live_id_went_live [of "env_body (info_payload 1)" 42 "Some (info_payload 1)" Map.empty 1000]
  by (simp add: scen)



section \<open>Properties of the feed poller\<close>

lemma max_int64_max: "max_int64 a b = max a b"
  by (simp add: max_int64_def max_def)

lemma foldl_max_int64: "foldl max_int64 n ts = Max (set (n # ts))"
proof (induction ts arbitrary: n)
  case Nil
  show ?case by simp
next
  case (Cons t ts)
  have "Max (insert n (insert t (set ts))) = Max (insert (max n t) (set ts))"
    by (cases "ts = []") (simp_all add: max.assoc)
  with Cons show ?case
    by (simp add: max_int64_max)
qed

lemma processed_Nil: "processed e [] = []"
  by (simp add: processed_def)

lemma processed_Cons:
  "processed e (item # items) =
     (case parseDynamic e item of
        None \<Rightarrow> processed e items
      | Some info \<Rightarrow>
          if types info = DynamicTypeLive then processed e items else info # processed e items)"
  by (simp add: processed_def split: option.splits)

lemma space_items_eq:
  "space_items e l items infos newest =
     (infos @ filter (\<lambda>info. times_info info > l) (processed e items),
      foldl max_int64 newest (map times_info (processed e items)))"
  by (induction items arbitrary: infos newest)
     (simp_all add: processed_Nil processed_Cons Let_def split: option.splits)

lemma space_failed:
  "fetch_failed (req_Get e spaceUrl (space_query ident)) \<Longrightarrow>
     \<exists>err. space e ident now lastTable = (Inl err, lastTable)"
  by (auto simp: fetch_failed_def space_def checkResp_def space_query_def
      split: sum.splits option.splits)

lemma space_code:
  "fetched e spaceUrl (space_query ident) r \<Longrightarrow> upstream_code r \<noteq> 0 \<Longrightarrow>
     space e ident now lastTable = (Inl (ErrNew (upstream_msg r)), lastTable)"
  by (auto simp: fetched_def space_def checkResp_def space_query_def checkBiliData_def
      upstream_code_def upstream_msg_def Let_def split: sum.splits option.splits)

lemma space_success:
  assumes "fetched e spaceUrl (space_query ident) r" "upstream_code r = 0"
  shows "space e ident now lastTable =
     (Inr (filter (\<lambda>info. times_info info > floor_ts lastTable ident now)
             (processed e (feed_items r))),
      lastTable(ident \<mapsto>
        Max (set (floor_ts lastTable ident now # 0 #
                  map times_info (processed e (feed_items r))))))"
proof -
  have "max_int64 l (Max (insert 0 S)) = Max (insert l (insert 0 S))" if "finite S" for l S
    using that by (simp add: max_int64_max)
  with assms show ?thesis
    by (auto simp: fetched_def space_def checkResp_def space_query_def checkBiliData_def
      upstream_code_def feed_items_def floor_ts_def Let_def space_items_eq foldl_max_int64
      split: sum.splits option.splits)
qed

lemma space_cases:
  obtains err where "space e ident now lastTable = (Inl err, lastTable)"
  | r where "fetched e spaceUrl (space_query ident) r" "upstream_code r = 0"
proof (cases "fetch_failed (req_Get e spaceUrl (space_query ident))")
  case True
  then show ?thesis
    using space_failed that(1) by blast
next
  case False
  then obtain r where r: "fetched e spaceUrl (space_query ident) r"
    by (auto simp: fetch_failed_def fetched_def split: sum.splits option.splits)
  show ?thesis
  proof (cases "upstream_code r = 0")
    case True
    with r that(2) show ?thesis by blast
  next
    case False
    with r that(1) space_code show ?thesis by blast
  qed
qed

lemma space_mono: "lastTable_at lastTable k \<le> lastTable_at (snd (space e ident now lastTable)) k"
proof (cases rule: space_cases [of e ident now lastTable])
  case (1 err)
  then show ?thesis by simp
next
  case (2 r)
  let ?ts = "map times_info (processed e (feed_items r))"
  let ?f = "floor_ts lastTable ident now"
  have "lastTable_at lastTable ident \<le> Max (set (?f # 0 # ?ts))"
  proof (cases "lastTable_at lastTable ident = 0")
    case True
    have "0 \<le> Max (insert 0 (set ?ts))"
      by (rule Max_ge) simp_all
    with True show ?thesis
      by (simp add: max.coboundedI2)
  next
    case False
    then have "?f = lastTable_at lastTable ident"
      by (simp add: floor_ts_def)
    then show ?thesis by simp
  qed
  with 2 show ?thesis
    by (simp add: space_success lastTable_at_def)
qed

lemma Send_dyn_id_snd: "snd (Send_dyn_id e now ident lastTable) = snd (space e ident now lastTable)"
  by (simp add: Send_dyn_id_def split: prod.splits sum.splits)

lemma Send_dyn_tick_mono:
  "lastTable_at lastTable k \<le> lastTable_at (snd (Send_dyn_tick e now uid lastTable)) k"
proof (induction uid arbitrary: lastTable)
  case Nil
  show ?case by simp
next
  case (Cons a uid)
  have "lastTable_at lastTable k \<le> lastTable_at (snd (Send_dyn_id e now a lastTable)) k"
    by (simp add: Send_dyn_id_snd space_mono)
  also have "\<dots> \<le> lastTable_at (snd (Send_dyn_tick e now uid (snd (Send_dyn_id e now a lastTable)))) k"
    by (rule Cons.IH)
  finally show ?case
    by (simp add: split_beta)
qed

lemma Send_dyn_mono:
  "lastTable_at lastTable k \<le> lastTable_at (snd (Send_dyn uid evs lastTable)) k"
proof (induction evs arbitrary: lastTable)
  case Nil
  show ?case by simp
next
  case (Cons ev evs)
  show ?case
  proof (cases ev)
    case Done
    then show ?thesis by simp
  next
    case (Tick now e)
    have "lastTable_at lastTable k \<le> lastTable_at (snd (Send_dyn_tick e now uid lastTable)) k"
      by (rule Send_dyn_tick_mono)
    also have "\<dots> \<le>
        lastTable_at (snd (Send_dyn uid evs (snd (Send_dyn_tick e now uid lastTable)))) k"
      by (rule Cons.IH)
    finally show ?thesis
      using Tick by (simp add: split_beta)
  qed
qed

text \<open>
  Claim C3. The watermark of every account never decreases: over one poll of any
  account, whether the fetch fails, the upstream refuses, or items come back, and over
  any run of the poller, the table reads for every account at least what it read
  before (an absent entry reads 0).
\<close>

theorem watermark_monotone:
  "lastTable_at lastTable k \<le> lastTable_at (snd (space e ident now lastTable)) k \<and>
   lastTable_at lastTable k \<le> lastTable_at (snd (Send_dyn uid evs lastTable)) k"
  by (simp add: space_mono Send_dyn_mono)


lemma Send_dyn_id_success:
  assumes "fetched e spaceUrl (space_query ident) r" "upstream_code r = 0"
  shows "Send_dyn_id e now ident lastTable =
     (map dynMsg (filter (\<lambda>info. times_info info > floor_ts lastTable ident now)
                    (processed e (feed_items r))),
      lastTable(ident \<mapsto>
        Max (set (floor_ts lastTable ident now # 0 #
                  map times_info (processed e (feed_items r))))))"
  by (simp add: Send_dyn_id_def space_success [OF assms])

text \<open>
  Claim C4, as amended. After a successful feed poll the account's watermark is the
  largest of: the floor of the poll (the watermark before, or the time of the poll less
  the interval when the table reads 0), 0, and the publish times of all items counted
  in the tick, the ones discarded for being at or below the floor included. So it is
  not the largest publish time of the batch when the batch is older than the floor.
  When the poll returns no items, a watermark above 0 stays as it is.
\<close>

theorem watermark_after_poll:
  "(fetched e spaceUrl (space_query ident) r \<and> upstream_code r = 0 \<longrightarrow>
      lastTable_at (snd (space e ident now lastTable)) ident =
        Max (set (floor_ts lastTable ident now # 0 #
                  map times_info (processed e (feed_items r))))) \<and>
   (fetched e spaceUrl (space_query ident) r \<and> upstream_code r = 0 \<and> feed_items r = [] \<and>
      0 < lastTable_at lastTable ident \<longrightarrow>
      lastTable_at (snd (space e ident now lastTable)) ident = lastTable_at lastTable ident)"
proof (intro conjI impI)
  assume a: "fetched e spaceUrl (space_query ident) r \<and> upstream_code r = 0"
  then show "lastTable_at (snd (space e ident now lastTable)) ident =
        Max (set (floor_ts lastTable ident now # 0 #
                  map times_info (processed e (feed_items r))))"
    using space_success [of e ident r now lastTable]
    by (simp add: lastTable_at_def)
next
  assume a: "fetched e spaceUrl (space_query ident) r \<and> upstream_code r = 0 \<and>
    feed_items r = [] \<and> 0 < lastTable_at lastTable ident"
  then have "floor_ts lastTable ident now = lastTable_at lastTable ident"
    by (simp add: floor_ts_def)
  with a show "lastTable_at (snd (space e ident now lastTable)) ident =
      lastTable_at lastTable ident"
    using space_success [of e ident r now lastTable]
    by (simp add: processed_Nil) (simp add: lastTable_at_def)
qed

text \<open>The definitions that the feed scenarios unfold.\<close>

lemmas feed_scen = scen space_query_def feed_items_def feed_payload_def word_item_def
  author_module_def gArray_def spaceUrl_def

lemma parse_word_item:
  "parseDynamic (env_body p) (Some (word_item name ts body)) =
     Some \<lparr>types = title_post, id_info = ''w1'', text_info = body, img = [], author = name,
           src = ''https://t.bilibili.com/w1'', times_info = ts\<rparr>"
  by (simp add: parseDynamic.simps feed_scen dynInfoPool_Get_def DynamicInfo_Reset_def
      new_DynamicInfo_def DynamicTypeWord_def dynamicUrlPrefix_def)

lemma title_post_not_Live: "title_post \<noteq> DynamicTypeLive"
  by (simp add: title_post_def DynamicTypeLive_def)

theorem watermark_after_poll_witness:
  "lastTable_at (snd (space (env_body one_old_post) 7 1000 watermark_7_at_100)) 7 = 100 \<and>
   lastTable_at (snd (space (env_body (feed_payload [])) 7 1000 watermark_7_at_100)) 7 = 100 \<and>
   lastTable_at (snd (space (env_body (feed_payload [])) 7 1000 no_watermark)) 7 = 990"
  using watermark_after_poll [of "env_body one_old_post" 7 "Some one_old_post" 1000
      watermark_7_at_100]
    watermark_after_poll [of "env_body (feed_payload [])" 7 "Some (feed_payload [])" 1000
      watermark_7_at_100]
    watermark_after_poll [of "env_body (feed_payload [])" 7 "Some (feed_payload [])" 1000
      no_watermark]
  by (simp add: feed_scen one_old_post_def watermark_7_at_100_def no_watermark_def
      processed_Cons processed_Nil parse_word_item [unfolded word_item_def author_module_def jobj_def jstr_def jnum_def env_body_def]
      title_post_not_Live floor_ts_def lastTable_at_def wrap64_def interval_def)

text \<open>
  The claim C4 as it is written fails: with the watermark of account 7 at 100, a poll
  that returns one post published at 50 leaves the watermark at 100, not at the largest
  publish time seen, 50; and the first poll of an account, at time 1000, returning no
  items, changes what the table reads for the account, from 0 to 990.
\<close>

theorem watermark_is_not_batch_maximum:
  "map times_info (processed (env_body one_old_post) (feed_items (Some one_old_post))) = [50] \<and>
   lastTable_at (snd (space (env_body one_old_post) 7 1000 watermark_7_at_100)) 7 \<noteq> 50 \<and>
   feed_items (Some (feed_payload [])) = [] \<and>
   lastTable_at (snd (space (env_body (feed_payload [])) 7 1000 no_watermark)) 7 \<noteq>
     lastTable_at no_watermark 7"
proof -
  have f1: "fetched (env_body one_old_post) spaceUrl (space_query 7) (Some one_old_post)"
    and f2: "fetched (env_body (feed_payload [])) spaceUrl (space_query 7) (Some (feed_payload []))"
    by (simp_all add: fetched_def env_body_def)
  have c1: "upstream_code (Some one_old_post) = 0"
    and c2: "upstream_code (Some (feed_payload [])) = 0"
    by (simp_all add: feed_scen one_old_post_def)
  have i1: "feed_items (Some one_old_post) = [Some (word_item ''Bob'' 50 ''old'')]"
    and i2: "feed_items (Some (feed_payload [])) = []"
    by (simp_all add: feed_items_def feed_payload_def one_old_post_def gGet_def gGet1_def
        jobj_def jarr_def gArray_def)
  have p1: "processed (env_body one_old_post) (feed_items (Some one_old_post)) =
      [\<lparr>types = title_post, id_info = ''w1'', text_info = ''old'', img = [], author = ''Bob'',
        src = ''https://t.bilibili.com/w1'', times_info = 50\<rparr>]"
    by (simp add: i1 processed_Cons processed_Nil parse_word_item title_post_not_Live)
  show ?thesis
    using space_success [OF f1 c1, of 1000 watermark_7_at_100]
      space_success [OF f2 c2, of 1000 no_watermark]
    by (simp add: p1 i2 processed_Nil floor_ts_def lastTable_at_def watermark_7_at_100_def
        no_watermark_def wrap64_def interval_def)
qed


text \<open>
  Claim C5, as amended. On the first poll of an account at time \<open>T\<close> (from 1 up to
  the largest \<^verbatim>\<open>int64\<close>), the floor is \<open>T - 10\<close>; of three counted items published at
  \<open>T - 5\<close>, \<open>T - 20000\<close> and \<open>T - 1\<close>, the first and the third are sent, in this order,
  and the watermark afterwards is \<open>T - 1\<close>.
\<close>

theorem first_poll_three_items:
  assumes "fetched e spaceUrl (space_query ident) r" "upstream_code r = 0"
    and "feed_items r = [i1, i2, i3]"
    and "parseDynamic e i1 = Some d1" "parseDynamic e i2 = Some d2" "parseDynamic e i3 = Some d3"
    and "types d1 \<noteq> DynamicTypeLive" "types d2 \<noteq> DynamicTypeLive" "types d3 \<noteq> DynamicTypeLive"
    and "times_info d1 = T - 5" "times_info d2 = T - 20000" "times_info d3 = T - 1"
    and "lastTable_at lastTable ident = 0"
    and "1 \<le> T" "T < 2 ^ 63"
  shows "floor_ts lastTable ident T = T - 10 \<and>
    Send_dyn_id e T ident lastTable = ([dynMsg d1, dynMsg d3], lastTable(ident \<mapsto> T - 1))"
proof -
  from \<open>1 \<le> T\<close> \<open>T < 2 ^ 63\<close> have "(T - 10 + 2 ^ 63) mod 2 ^ 64 = T - 10 + 2 ^ 63"
    by (intro mod_pos_pos_trivial) simp_all
  with assms(13) have fl: "floor_ts lastTable ident T = T - 10"
    by (simp add: floor_ts_def wrap64_def interval_def)
  have pr: "processed e (feed_items r) = [d1, d2, d3]"
    using assms(3-9) by (simp add: processed_Cons processed_Nil)
  from \<open>1 \<le> T\<close> have "Max {T - 10, 0, T - 5, T - 20000, T - 1} = T - 1"
    by simp
  with fl pr assms(10-12) show ?thesis
    by (simp add: Send_dyn_id_success [OF assms(1,2)])
qed


lemma three_posts_fetched:
  "fetched (env_body (three_posts T)) spaceUrl (space_query ident) (Some (three_posts T))"
  by (simp add: fetched_def env_body_def)

lemma three_posts_code: "upstream_code (Some (three_posts T)) = 0"
  by (simp add: feed_scen three_posts_def)

lemma three_posts_items:
  "feed_items (Some (three_posts T)) =
     [Some (word_item ''Bob'' (T - 5) ''one''), Some (word_item ''Bob'' (T - 20000) ''two''),
      Some (word_item ''Bob'' (T - 1) ''three'')]"
  by (simp add: feed_items_def feed_payload_def three_posts_def gGet_def gGet1_def
      jobj_def jarr_def gArray_def)

theorem first_poll_three_items_witness:
  "floor_ts no_watermark 7 1000000 = 999990 \<and>
   map Text (fst (Send_dyn_id (env_body (three_posts 1000000)) 1000000 7 no_watermark)) =
     [''one'', ''three''] \<and>
   map Times (fst (Send_dyn_id (env_body (three_posts 1000000)) 1000000 7 no_watermark)) =
     [999995, 999999] \<and>
   lastTable_at (snd (Send_dyn_id (env_body (three_posts 1000000)) 1000000 7 no_watermark)) 7 =
     999999"
  using first_poll_three_items [where T = 1000000 and ident = 7 and lastTable = no_watermark,
      OF three_posts_fetched three_posts_code three_posts_items
        parse_word_item parse_word_item parse_word_item]
  by (simp add: title_post_not_Live lastTable_at_def no_watermark_def dynMsg_def)

text \<open>
  The claim C5 as it is written fails: at \<open>T = 1000000\<close> the Messages sent are not
  the single one of the item published at \<open>T - 1\<close>; the item published at \<open>T - 5\<close> is
  above the floor \<open>T - 10\<close> as well.
\<close>

theorem first_poll_emits_two_items:
  "\<not> (map Text (fst (Send_dyn_id (env_body (three_posts 1000000)) 1000000 7 no_watermark)) =
        [''three''])"
proof -
  have "processed (env_body (three_posts 1000000)) (feed_items (Some (three_posts 1000000))) =
      [\<lparr>types = title_post, id_info = ''w1'', text_info = ''one'', img = [], author = ''Bob'',
        src = ''https://t.bilibili.com/w1'', times_info = 999995\<rparr>,
       \<lparr>types = title_post, id_info = ''w1'', text_info = ''two'', img = [], author = ''Bob'',
        src = ''https://t.bilibili.com/w1'', times_info = 980000\<rparr>,
       \<lparr>types = title_post, id_info = ''w1'', text_info = ''three'', img = [], author = ''Bob'',
        src = ''https://t.bilibili.com/w1'', times_info = 999999\<rparr>]"
    by (simp add: three_posts_items processed_Cons processed_Nil parse_word_item
        title_post_not_Live)
  moreover have "floor_ts no_watermark 7 1000000 = 999990"
    by (simp add: floor_ts_def lastTable_at_def no_watermark_def wrap64_def interval_def)
  ultimately show ?thesis
    using Send_dyn_id_success [where ident = 7 and now = 1000000 and lastTable = no_watermark,
        OF three_posts_fetched three_posts_code, of 1000000]
    by (simp add: dynMsg_def)
qed

section \<open>Properties of the item classifier\<close>

text \<open>Groups of definitions that the proofs unfold.\<close>

lemmas type_defs = DynamicTypeForward_def DynamicTypeDraw_def DynamicTypeAV_def
  DynamicTypeWord_def DynamicTypeArticle_def DynamicTypeMusic_def DynamicTypePGC_def
  DynamicTypeLive_def

lemmas title_defs = title_post_def title_video_def title_forward_def title_share_live_def
  title_article_def title_music_def

lemmas item_defs = item_type_def item_text_def live_content_def item_author_def
  item_pub_ts_def item_id_def item_major_def

lemma DynamicInfo_Reset_fields:
  "DynamicInfo_Reset d =
     \<lparr>types = [], id_info = [], text_info = [], img = [], author = [], src = [],
      times_info = times_info d\<rparr>"
  by (simp add: DynamicInfo_Reset_def)

lemma parseDynamic_Live:
  assumes "item_type item = DynamicTypeLive"
  shows "parseDynamic e item =
     (if live_content item = [] then None
      else Some \<lparr>types = DynamicTypeLive, id_info = item_id item,
        text_info = text_title (gString (gGet (gGet (gjson_Parse e (live_content item))
                                  [''live_play_info'']) [''title''])),
        img = [gString (gGet (gGet (gjson_Parse e (live_content item))
                                  [''live_play_info'']) [''cover''])],
        author = item_author item, src = dynamicUrlPrefix @ item_id item,
        times_info = item_pub_ts item\<rparr>)"
  using assms
  by (subst parseDynamic.simps)
     (simp add: item_defs type_defs Let_def dynInfoPool_Get_def DynamicInfo_Reset_fields)

lemma parseDynamic_PGC:
  assumes "item_type item = DynamicTypePGC"
  shows "parseDynamic e item =
     Some \<lparr>types = [], id_info = item_id item,
        text_info = gString (gGet (item_major item ''pgc'') [''title'']),
        img = [gString (gGet (item_major item ''pgc'') [''cover''])],
        author = item_author item, src = dynamicUrlPrefix @ item_id item,
        times_info = item_pub_ts item\<rparr>"
  using assms
  by (subst parseDynamic.simps)
     (simp add: item_defs type_defs Let_def dynInfoPool_Get_def DynamicInfo_Reset_fields gGet_def)

lemma parseDynamic_other:
  assumes "item_type item \<notin> set known_types"
  shows "parseDynamic e item =
     Some \<lparr>types = title_post, id_info = item_id item, text_info = text_unhandled, img = [],
        author = item_author item, src = dynamicUrlPrefix @ item_id item,
        times_info = item_pub_ts item\<rparr>"
  using assms
  by (subst parseDynamic.simps)
     (simp add: item_defs known_types_def Let_def dynInfoPool_Get_def DynamicInfo_Reset_fields)

lemma parseDynamic_Forward:
  assumes "item_type item = DynamicTypeForward"
  shows "parseDynamic e item =
     (case parseDynamic e (gGet item [''orig'']) of
        None \<Rightarrow> None
      | Some origInfo \<Rightarrow>
          Some \<lparr>types = (if types origInfo = DynamicTypeLive then title_share_live
                         else title_forward),
            id_info = item_id item,
            text_info = (if types origInfo = DynamicTypeLive
                         then text_share_live (item_text item) (author origInfo)
                                (text_info origInfo)
                         else text_forward (item_text item) (author origInfo)
                                (text_info origInfo)),
            img = img origInfo,
            author = item_author item, src = dynamicUrlPrefix @ item_id item,
            times_info = item_pub_ts item\<rparr>)"
  using assms
  by (subst parseDynamic.simps)
     (simp add: item_defs type_defs Let_def dynInfoPool_Get_def DynamicInfo_Reset_fields
        split: option.splits)

lemma parseDynamic_total_elsewhere:
  assumes "item_type item \<noteq> DynamicTypeLive" "item_type item \<noteq> DynamicTypeForward"
  shows "\<exists>info. parseDynamic e item = Some info \<and>
     (types info = [] \<longleftrightarrow> item_type item = DynamicTypePGC) \<and> types info \<noteq> DynamicTypeLive"
  using assms
  by (subst parseDynamic.simps)
     (simp add: item_defs type_defs title_defs Let_def dynInfoPool_Get_def
        DynamicInfo_Reset_fields)

lemma parseDynamic_Live_iff:
  assumes "parseDynamic e item = Some info"
  shows "types info = DynamicTypeLive \<longleftrightarrow> item_type item = DynamicTypeLive"
proof (cases "item_type item = DynamicTypeLive")
  case True
  with assms show ?thesis
    by (auto simp: parseDynamic_Live split: if_splits)
next
  case notLive: False
  show ?thesis
  proof (cases "item_type item = DynamicTypeForward")
    case True
    with assms notLive show ?thesis
      by (auto simp: parseDynamic_Forward type_defs title_defs split: option.splits if_splits)
  next
    case False
    with assms notLive parseDynamic_total_elsewhere [of item e] show ?thesis
      by auto
  qed
qed

lemma parseDynamic_empty_title:
  assumes "parseDynamic e item = Some info" "item_type item \<noteq> DynamicTypePGC"
  shows "types info \<noteq> []"
proof (cases "item_type item = DynamicTypeLive")
  case True
  with assms show ?thesis
    by (auto simp: parseDynamic_Live type_defs split: if_splits)
next
  case notLive: False
  show ?thesis
  proof (cases "item_type item = DynamicTypeForward")
    case True
    with assms notLive show ?thesis
      by (auto simp: parseDynamic_Forward title_defs split: option.splits if_splits)
  next
    case False
    with assms notLive parseDynamic_total_elsewhere [of item e] show ?thesis
      by auto
  qed
qed

lemma parseDynamic_None_iff:
  "parseDynamic e item = None \<longleftrightarrow>
     item_type item = DynamicTypeLive \<and> live_content item = [] \<or>
     item_type item = DynamicTypeForward \<and> parseDynamic e (gGet item [''orig'']) = None"
proof (cases "item_type item = DynamicTypeLive")
  case True
  then show ?thesis
    by (simp add: parseDynamic_Live type_defs)
next
  case notLive: False
  show ?thesis
  proof (cases "item_type item = DynamicTypeForward")
    case True
    then show ?thesis
      by (simp add: parseDynamic_Forward type_defs split: option.splits)
  next
    case False
    with notLive parseDynamic_total_elsewhere [of item e] show ?thesis
      by auto
  qed
qed

lemma parseDynamic_pool:
  "parseDynamic (e\<lparr>dynInfoPool := d\<rparr>) item = parseDynamic e item"
proof (induction e item rule: parseDynamic.induct)
  case (1 e item)
  show ?case
  proof (cases "gString (gGet item [''type'']) = DynamicTypeForward")
    case True
    then have "item_type item = DynamicTypeForward"
      by (simp add: item_type_def)
    moreover have "parseDynamic (e\<lparr>dynInfoPool := d\<rparr>) (gGet item [''orig'']) =
        parseDynamic e (gGet item [''orig''])"
      using True by (intro "1.IH") (simp_all add: type_defs)
    ultimately show ?thesis
      by (simp add: parseDynamic_Forward)
  next
    case False
    then show ?thesis
      by (subst (1 2) parseDynamic.simps)
         (simp add: Let_def dynInfoPool_Get_def DynamicInfo_Reset_fields)
  qed
qed


lemma processed_member:
  assumes "item \<in> set items" "parseDynamic e item = Some info" "types info \<noteq> DynamicTypeLive"
  shows "info \<in> set (processed e items)"
  using assms
  by (induction items) (auto simp: processed_Cons split: option.splits)

lemmas item_scen = feed_scen item_defs type_defs live_item_def forward_item_def pgc_item_def
  other_item_def live_play_def env_unparseable_def env_gjson_def live_play_text_def quoted_def

text \<open>
  Claim C6, as amended. The classifier terminates on every item, and returns nil if and
  only if (a) the item is a live announcement whose content string is empty (a missing
  or null content reads as empty), or (b) the item is a repost whose embedded original
  classifies to nil. A live announcement with any other content classifies to a record,
  also when that content is not JSON: its body holds the title and its image is the
  cover that gjson reads in the content, whatever they are. An item of a type outside
  the eight known ones classifies to the generic record with the fixed "unhandled type"
  body.
\<close>

theorem classifier_suppression:
  "(parseDynamic e item = None \<longleftrightarrow>
      item_type item = DynamicTypeLive \<and> live_content item = [] \<or>
      item_type item = DynamicTypeForward \<and> parseDynamic e (gGet item [''orig'']) = None) \<and>
   (item_type item = DynamicTypeLive \<and> live_content item \<noteq> [] \<longrightarrow>
      parseDynamic e item =
        Some \<lparr>types = ''DYNAMIC_TYPE_LIVE_RCMD'', id_info = item_id item,
          text_info =
            [CHR 0xE6, CHR 0xA0, CHR 0x87, CHR 0xE9, CHR 0xA2, CHR 0x98, CHR 0xEF, CHR 0xBC, CHR 0x9A, CHR 0x22] @
            gString (gGet (gGet (gjson_Parse e (live_content item)) [''live_play_info''])
                       [''title'']) @ [CHR 0x22],
          img = [gString (gGet (gGet (gjson_Parse e (live_content item)) [''live_play_info''])
                            [''cover''])],
          author = item_author item, src = dynamicUrlPrefix @ item_id item,
          times_info = item_pub_ts item\<rparr>) \<and>
   (item_type item \<notin> set known_types \<longrightarrow>
      parseDynamic e item =
        Some \<lparr>types =
           [CHR 0xE5, CHR 0x8F, CHR 0x91, CHR 0xE5, CHR 0xB8, CHR 0x83, CHR 0xE5, CHR 0x8A, CHR 0xA8,
            CHR 0xE6, CHR 0x80, CHR 0x81],
          id_info = item_id item,
          text_info =
           [CHR 0xE6, CHR 0x9C, CHR 0xAA, CHR 0xE5, CHR 0xA4, CHR 0x84, CHR 0xE7, CHR 0x90, CHR 0x86,
            CHR 0xE7, CHR 0x9A, CHR 0x84, CHR 0xE5, CHR 0x8A, CHR 0xA8, CHR 0xE6, CHR 0x80, CHR 0x81,
            CHR 0xE7, CHR 0xB1, CHR 0xBB, CHR 0xE5, CHR 0x9E, CHR 0x8B],
          img = [],
          author = item_author item, src = dynamicUrlPrefix @ item_id item,
          times_info = item_pub_ts item\<rparr>)"
  using parseDynamic_None_iff [of e item] parseDynamic_other [of item e]
    parseDynamic_Live [of item e]
  by (simp add: text_title_def title_post_def text_unhandled_def DynamicTypeLive_def)

theorem classifier_suppression_witness:
  "parseDynamic env_gjson (Some (live_item ''Dan'' 50 [])) = None \<and>
   parseDynamic env_gjson
     (Some (forward_item ''Carol'' 60 ''look'' (live_item ''Dan'' 50 []))) = None \<and>
   parseDynamic env_gjson (Some (live_item ''Dan'' 50 live_play_text)) =
     Some \<lparr>types = ''DYNAMIC_TYPE_LIVE_RCMD'', id_info = ''l1'',
       text_info =
         [CHR 0xE6, CHR 0xA0, CHR 0x87, CHR 0xE9, CHR 0xA2, CHR 0x98, CHR 0xEF, CHR 0xBC, CHR 0x9A, CHR 0x22] @
         ''stream'' @ [CHR 0x22],
       img = [''l.jpg''], author = ''Dan'', src = ''https://t.bilibili.com/l1'',
       times_info = 50\<rparr> \<and>
   parseDynamic env_gjson (Some (live_item ''Dan'' 50 ''{}'')) =
     Some \<lparr>types = ''DYNAMIC_TYPE_LIVE_RCMD'', id_info = ''l1'',
       text_info =
         [CHR 0xE6, CHR 0xA0, CHR 0x87, CHR 0xE9, CHR 0xA2, CHR 0x98, CHR 0xEF, CHR 0xBC, CHR 0x9A, CHR 0x22] @
         [CHR 0x22],
       img = [[]], author = ''Dan'', src = ''https://t.bilibili.com/l1'', times_info = 50\<rparr> \<and>
   parseDynamic env_gjson (Some (word_item ''Alice'' 50 ''Hi'')) \<noteq> None \<and>
   parseDynamic env_gjson (Some (other_item ''Eve'' 70)) =
     Some \<lparr>types =
         [CHR 0xE5, CHR 0x8F, CHR 0x91, CHR 0xE5, CHR 0xB8, CHR 0x83, CHR 0xE5, CHR 0x8A, CHR 0xA8,
            CHR 0xE6, CHR 0x80, CHR 0x81],
       id_info = ''o1'',
       text_info =
         [CHR 0xE6, CHR 0x9C, CHR 0xAA, CHR 0xE5, CHR 0xA4, CHR 0x84, CHR 0xE7, CHR 0x90, CHR 0x86,
            CHR 0xE7, CHR 0x9A, CHR 0x84, CHR 0xE5, CHR 0x8A, CHR 0xA8, CHR 0xE6, CHR 0x80, CHR 0x81,
            CHR 0xE7, CHR 0xB1, CHR 0xBB, CHR 0xE5, CHR 0x9E, CHR 0x8B],
       img = [], author = ''Eve'', src = ''https://t.bilibili.com/o1'', times_info = 70\<rparr>"
  using classifier_suppression [of env_gjson "Some (live_item ''Dan'' 50 [])"]
    classifier_suppression [of env_gjson
      "Some (forward_item ''Carol'' 60 ''look'' (live_item ''Dan'' 50 []))"]
    classifier_suppression [of env_gjson "Some (live_item ''Dan'' 50 live_play_text)"]
    classifier_suppression [of env_gjson "Some (live_item ''Dan'' 50 ''{}'')"]
    classifier_suppression [of env_gjson "Some (word_item ''Alice'' 50 ''Hi'')"]
    classifier_suppression [of env_gjson "Some (other_item ''Eve'' 70)"]
  by (simp add: item_scen known_types_def dynamicUrlPrefix_def)

text \<open>
  The claim C6 as it is written fails where it counts unparseable content as
  suppressed: a live announcement whose content is the text \<^verbatim>\<open>not json\<close>, which holds
  no brace and in which gjson reads nothing, classifies to a record, not to nil.
\<close>

theorem unparseable_content_not_suppressed:
  "item_type (Some (live_item ''Dan'' 50 ''not json'')) = DynamicTypeLive \<and>
   live_content (Some (live_item ''Dan'' 50 ''not json'')) = ''not json'' \<and>
   gjson_Parse env_unparseable ''not json'' = None \<and>
   parseDynamic env_unparseable (Some (live_item ''Dan'' 50 ''not json'')) =
     Some \<lparr>types = ''DYNAMIC_TYPE_LIVE_RCMD'', id_info = ''l1'',
       text_info =
         [CHR 0xE6, CHR 0xA0, CHR 0x87, CHR 0xE9, CHR 0xA2, CHR 0x98, CHR 0xEF, CHR 0xBC, CHR 0x9A, CHR 0x22] @
         [CHR 0x22],
       img = [[]], author = ''Dan'', src = ''https://t.bilibili.com/l1'', times_info = 50\<rparr> \<and>
   parseDynamic env_unparseable (Some (live_item ''Dan'' 50 ''not json'')) \<noteq> None"
proof -
  have "item_type (Some (live_item ''Dan'' 50 ''not json'')) = DynamicTypeLive"
    by (simp add: item_scen)
  from parseDynamic_Live [OF this, of env_unparseable] show ?thesis
    by (simp add: item_scen dynamicUrlPrefix_def text_title_def)
qed

text \<open>
  Claim C7, as amended. A repost whose embedded original classifies to a record takes
  its images from the original. When the original is a live announcement, its body is
  the commentary, a newline, "shared", the original's author in double quotes, "'s live
  room", a newline and the original's body. Otherwise it is the commentary, a space, a
  newline, "reposted from", a fullwidth colon, \<^verbatim>\<open>@\<close> and the original's author, a
  newline and the original's body. Both formats are given as the bytes of the source's
  literals.
\<close>

theorem repost_body:
  assumes "item_type item = DynamicTypeForward"
    and "parseDynamic e (gGet item [''orig'']) = Some origInfo"
  shows "parseDynamic e item =
     Some \<lparr>types = (if item_type (gGet item [''orig'']) = DynamicTypeLive then title_share_live
                    else title_forward),
       id_info = item_id item,
       text_info =
         (if item_type (gGet item [''orig'']) = DynamicTypeLive
          then item_text item @
           [CHR 0x0A, CHR 0xE5, CHR 0x88, CHR 0x86, CHR 0xE4, CHR 0xBA, CHR 0xAB, CHR 0x22] @
           author origInfo @
           [CHR 0x22, CHR 0xE7, CHR 0x9A, CHR 0x84, CHR 0xE7, CHR 0x9B, CHR 0xB4, CHR 0xE6, CHR 0x92,
            CHR 0xAD, CHR 0xE9, CHR 0x97, CHR 0xB4, CHR 0x0A] @
           text_info origInfo
          else item_text item @
           [CHR 0x20, CHR 0x0A, CHR 0xE8, CHR 0xBD, CHR 0xAC, CHR 0xE5, CHR 0x8F, CHR 0x91, CHR 0xE8,
            CHR 0x87, CHR 0xAA, CHR 0xEF, CHR 0xBC, CHR 0x9A, CHR 0x40] @
           author origInfo @ [CHR 0x0A] @ text_info origInfo),
       img = img origInfo,
       author = item_author item, src = dynamicUrlPrefix @ item_id item,
       times_info = item_pub_ts item\<rparr>"
  using assms parseDynamic_Live_iff [OF assms(2)]
  by (simp add: parseDynamic_Forward text_share_live_def text_forward_def)

lemma parse_live_item:
  "parseDynamic env_gjson (Some (live_item name ts live_play_text)) =
     Some \<lparr>types = DynamicTypeLive, id_info = ''l1'', text_info = text_title ''stream'',
       img = [''l.jpg''], author = name, src = ''https://t.bilibili.com/l1'', times_info = ts\<rparr>"
proof -
  have "item_type (Some (live_item name ts live_play_text)) = DynamicTypeLive"
    by (simp add: item_scen)
  from parseDynamic_Live [OF this, of env_gjson] show ?thesis
    by (simp add: item_scen dynamicUrlPrefix_def)
qed

lemma parse_word_item_gjson:
  "parseDynamic env_gjson (Some (word_item name ts body)) =
     Some \<lparr>types = title_post, id_info = ''w1'', text_info = body, img = [], author = name,
           src = ''https://t.bilibili.com/w1'', times_info = ts\<rparr>"
  by (simp add: parseDynamic.simps item_scen dynInfoPool_Get_def DynamicInfo_Reset_def
      new_DynamicInfo_def dynamicUrlPrefix_def)

theorem repost_body_witness:
  "map_option text_info (parseDynamic env_gjson
     (Some (forward_item ''Carol'' 60 ''check this out'' (word_item ''Alice'' 50 ''Hi'')))) =
     Some (''check this out '' @
           [CHR 0x0A, CHR 0xE8, CHR 0xBD, CHR 0xAC, CHR 0xE5, CHR 0x8F, CHR 0x91, CHR 0xE8,
            CHR 0x87, CHR 0xAA, CHR 0xEF, CHR 0xBC, CHR 0x9A] @ ''@Alice'' @ [CHR 0x0A] @ ''Hi'') \<and>
   map_option img (parseDynamic env_gjson
     (Some (forward_item ''Carol'' 60 ''check this out'' (word_item ''Alice'' 50 ''Hi'')))) =
     Some [] \<and>
   map_option text_info (parseDynamic env_gjson
     (Some (forward_item ''Carol'' 60 ''look'' (live_item ''Dan'' 50 live_play_text)))) =
     Some (''look'' @
           [CHR 0x0A, CHR 0xE5, CHR 0x88, CHR 0x86, CHR 0xE4, CHR 0xBA, CHR 0xAB, CHR 0x22] @
           ''Dan'' @
           [CHR 0x22, CHR 0xE7, CHR 0x9A, CHR 0x84, CHR 0xE7, CHR 0x9B, CHR 0xB4, CHR 0xE6, CHR 0x92,
            CHR 0xAD, CHR 0xE9, CHR 0x97, CHR 0xB4, CHR 0x0A] @
           [CHR 0xE6, CHR 0xA0, CHR 0x87, CHR 0xE9, CHR 0xA2, CHR 0x98, CHR 0xEF, CHR 0xBC, CHR 0x9A, CHR 0x22] @
           ''stream'' @ [CHR 0x22]) \<and>
   map_option img (parseDynamic env_gjson
     (Some (forward_item ''Carol'' 60 ''look'' (live_item ''Dan'' 50 live_play_text)))) =
     Some [''l.jpg'']"
  using repost_body [of "Some (forward_item ''Carol'' 60 ''check this out''
        (word_item ''Alice'' 50 ''Hi''))" env_gjson
      "\<lparr>types = title_post, id_info = ''w1'', text_info = ''Hi'', img = [], author = ''Alice'',
        src = ''https://t.bilibili.com/w1'', times_info = 50\<rparr>"]
    repost_body [of "Some (forward_item ''Carol'' 60 ''look'' (live_item ''Dan'' 50 live_play_text))"
      env_gjson
      "\<lparr>types = DynamicTypeLive, id_info = ''l1'', text_info = text_title ''stream'',
        img = [''l.jpg''], author = ''Dan'', src = ''https://t.bilibili.com/l1'',
        times_info = 50\<rparr>"]
    parse_word_item_gjson [of "''Alice''" 50 "''Hi''"]
    parse_live_item [of "''Dan''" 50]
  by (simp add: item_type_def item_text_def forward_item_def gGet_def gGet1_def gString_def
      jobj_def jstr_def DynamicTypeForward_def text_title_def
      word_item_def live_item_def DynamicTypeLive_def)

text \<open>
  The claim C7 as it is written fails in the format for a live announcement: the body
  of a repost with commentary \<^verbatim>\<open>look\<close> of Dan's live announcement has Dan's name in
  double quotes, which the format of the claim does not have.
\<close>

theorem repost_of_live_quotes_author:
  "map_option text_info (parseDynamic env_gjson
     (Some (forward_item ''Carol'' 60 ''look'' (live_item ''Dan'' 50 live_play_text)))) =
     Some (''look'' @
           [CHR 0x0A, CHR 0xE5, CHR 0x88, CHR 0x86, CHR 0xE4, CHR 0xBA, CHR 0xAB, CHR 0x22] @
           ''Dan'' @
           [CHR 0x22, CHR 0xE7, CHR 0x9A, CHR 0x84, CHR 0xE7, CHR 0x9B, CHR 0xB4, CHR 0xE6, CHR 0x92,
            CHR 0xAD, CHR 0xE9, CHR 0x97, CHR 0xB4, CHR 0x0A] @
           [CHR 0xE6, CHR 0xA0, CHR 0x87, CHR 0xE9, CHR 0xA2, CHR 0x98, CHR 0xEF, CHR 0xBC, CHR 0x9A, CHR 0x22] @
           ''stream'' @ [CHR 0x22]) \<and>
   map_option text_info (parseDynamic env_gjson
     (Some (forward_item ''Carol'' 60 ''look'' (live_item ''Dan'' 50 live_play_text)))) \<noteq>
     Some (claimed_share_live ''look'' ''Dan''
            ([CHR 0xE6, CHR 0xA0, CHR 0x87, CHR 0xE9, CHR 0xA2, CHR 0x98, CHR 0xEF, CHR 0xBC, CHR 0x9A, CHR 0x22] @
             ''stream'' @ [CHR 0x22]))"
proof -
  have fwd: "item_type (Some (forward_item ''Carol'' 60 ''look''
      (live_item ''Dan'' 50 live_play_text))) = DynamicTypeForward"
    by (simp add: item_type_def forward_item_def gGet_def gGet1_def gString_def jobj_def
        jstr_def DynamicTypeForward_def)
  have orig: "gGet (Some (forward_item ''Carol'' 60 ''look''
      (live_item ''Dan'' 50 live_play_text))) [''orig''] =
      Some (live_item ''Dan'' 50 live_play_text)"
    by (simp add: forward_item_def gGet_def gGet1_def jobj_def)
  have comm: "item_text (Some (forward_item ''Carol'' 60 ''look''
      (live_item ''Dan'' 50 live_play_text))) = ''look''"
    by (simp add: item_text_def forward_item_def gGet_def gGet1_def gString_def jobj_def
        jstr_def)
  show ?thesis
    using parseDynamic_Forward [OF fwd, of env_gjson]
    by (simp add: orig comm parse_live_item text_share_live_def text_title_def
        claimed_share_live_def)
qed


lemma pgc_emitted:
  assumes "fetched e spaceUrl (space_query ident) r" "upstream_code r = 0"
    and "item \<in> set (feed_items r)" "item_type item = DynamicTypePGC"
    and "floor_ts lastTable ident now < item_pub_ts item"
  shows "\<lparr>Times = item_pub_ts item, Flag = BiliDynMsg, Author = item_author item, Title = [],
           Text = gString (gGet (item_major item ''pgc'') [''title'']),
           Img = [gString (gGet (item_major item ''pgc'') [''cover''])],
           Src = dynamicUrlPrefix @ item_id item\<rparr>
         \<in> set (fst (Send_dyn_id e now ident lastTable))"
proof -
  let ?info = "\<lparr>types = [], id_info = item_id item,
        text_info = gString (gGet (item_major item ''pgc'') [''title'']),
        img = [gString (gGet (item_major item ''pgc'') [''cover''])],
        author = item_author item, src = dynamicUrlPrefix @ item_id item,
        times_info = item_pub_ts item\<rparr>"
  have "parseDynamic e item = Some ?info"
    using assms(4) by (rule parseDynamic_PGC)
  with assms(3) have "?info \<in> set (processed e (feed_items r))"
    by (rule processed_member) (simp add: DynamicTypeLive_def)
  with assms(5) have "dynMsg ?info \<in> set (fst (Send_dyn_id e now ident lastTable))"
    by (simp add: Send_dyn_id_success [OF assms(1,2)])
  then show ?thesis
    by (simp add: dynMsg_def)
qed

text \<open>
  Claim C10. An item of type \<^verbatim>\<open>DYNAMIC_TYPE_PGC\<close> always classifies, to a record
  whose type tag is empty: the record taken from the pool has an empty tag after
  \<^verbatim>\<open>Reset\<close>, and this branch does not set it. Every record of an item of another type
  has a tag that is not empty. The Message sent for such an item, when its publish time
  is above the floor, has an empty title.
\<close>

theorem pgc_empty_title:
  "(item_type item = DynamicTypePGC \<longrightarrow>
      parseDynamic e item =
        Some \<lparr>types = [], id_info = item_id item,
          text_info = gString (gGet (item_major item ''pgc'') [''title'']),
          img = [gString (gGet (item_major item ''pgc'') [''cover''])],
          author = item_author item, src = dynamicUrlPrefix @ item_id item,
          times_info = item_pub_ts item\<rparr>) \<and>
   (parseDynamic e item = Some info \<and> item_type item \<noteq> DynamicTypePGC \<longrightarrow> types info \<noteq> []) \<and>
   types (dynInfoPool_Get e) = [] \<and>
   (fetched e spaceUrl (space_query ident) r \<and> upstream_code r = 0 \<and>
    item \<in> set (feed_items r) \<and> item_type item = DynamicTypePGC \<and>
    floor_ts lastTable ident now < item_pub_ts item \<longrightarrow>
      \<lparr>Times = item_pub_ts item, Flag = BiliDynMsg, Author = item_author item, Title = [],
        Text = gString (gGet (item_major item ''pgc'') [''title'']),
        Img = [gString (gGet (item_major item ''pgc'') [''cover''])],
        Src = dynamicUrlPrefix @ item_id item\<rparr>
      \<in> set (fst (Send_dyn_id e now ident lastTable)))"
  using parseDynamic_PGC [of item e] parseDynamic_empty_title [of e item info]
    pgc_emitted [of e ident r item lastTable now]
  by (simp add: dynInfoPool_Get_def DynamicInfo_Reset_fields)

theorem pgc_empty_title_witness:
  "parseDynamic (env_body (feed_payload [pgc_item ''Studio'' 999 ''Series'' ''s.jpg'']))
     (Some (pgc_item ''Studio'' 999 ''Series'' ''s.jpg'')) =
     Some \<lparr>types = [], id_info = ''p1'', text_info = ''Series'', img = [''s.jpg''],
       author = ''Studio'', src = ''https://t.bilibili.com/p1'', times_info = 999\<rparr> \<and>
   map_option types (parseDynamic (env_body live_play) (Some (word_item ''Alice'' 50 ''Hi''))) \<noteq>
     Some [] \<and>
   \<lparr>Times = 999, Flag = BiliDynMsg, Author = ''Studio'', Title = [], Text = ''Series'',
     Img = [''s.jpg''], Src = ''https://t.bilibili.com/p1''\<rparr>
   \<in> set (fst (Send_dyn_id (env_body (feed_payload [pgc_item ''Studio'' 999 ''Series'' ''s.jpg'']))
               1000 7 no_watermark))"
  using pgc_empty_title [of "Some (pgc_item ''Studio'' 999 ''Series'' ''s.jpg'')"
      "env_body (feed_payload [pgc_item ''Studio'' 999 ''Series'' ''s.jpg''])" new_DynamicInfo
      7 "Some (feed_payload [pgc_item ''Studio'' 999 ''Series'' ''s.jpg''])" no_watermark 1000]
    pgc_empty_title [of "Some (word_item ''Alice'' 50 ''Hi'')" "env_body live_play"
      "\<lparr>types = title_post, id_info = ''w1'', text_info = ''Hi'', img = [], author = ''Alice'',
        src = ''https://t.bilibili.com/w1'', times_info = 50\<rparr>"]
    parse_word_item [of live_play "''Alice''" 50 "''Hi''"]
  by (simp add: item_scen dynamicUrlPrefix_def floor_ts_def lastTable_at_def no_watermark_def
      wrap64_def interval_def)

section \<open>Properties of the orchestrator\<close>

lemma received_by_append:
  "received_by i (xs @ ys) = received_by i xs @ received_by i ys"
  by (induction i xs rule: received_by.induct) simp_all

lemma received_by_deliver:
  "received_by i (deliver j s msg) = (if i = j then [msg] else [])"
  by (simp add: deliver_def split: option.splits)

lemma received_by_dispatch:
  "received_by i (dispatch k sinks msg) = (if k \<le> i \<and> i < k + length sinks then [msg] else [])"
  by (induction sinks arbitrary: k) (auto simp: received_by_append received_by_deliver)

lemma received_by_Run:
  "i < length sinks \<Longrightarrow> received_by i (Run sinks cs) = dequeued cs"
  by (induction sinks cs rule: Run.induct) (simp_all add: received_by_append received_by_dispatch)

lemma Printed_dispatch:
  "i < length sinks \<Longrightarrow> (sinks ! i) msg = Some err \<Longrightarrow> Printed err \<in> set (dispatch k sinks msg)"
proof (induction sinks arbitrary: i k)
  case Nil
  then show ?case by simp
next
  case (Cons s sinks)
  then show ?case
    by (cases i) (auto simp: deliver_def)
qed

lemma Printed_Run:
  "i < length sinks \<Longrightarrow> msg \<in> set (dequeued cs) \<Longrightarrow> (sinks ! i) msg = Some err \<Longrightarrow>
     Printed err \<in> set (Run sinks cs)"
  by (induction sinks cs rule: Run.induct) (auto simp: Printed_dispatch)

text \<open>
  Claim C9. For every Message taken from the channel before the cancellation, a
  delivery is started for every registered Sink: the Sink at each position is called
  with exactly the Messages taken, in their order, whatever any Sink returns. An error
  that a Sink returns is printed, and the loop goes on with the next Message.
\<close>

theorem delivery_isolated:
  "(i < length sinks \<longrightarrow> received_by i (Run sinks cs) = dequeued cs) \<and>
   (i < length sinks \<and> msg \<in> set (dequeued cs) \<and> (sinks ! i) msg = Some err \<longrightarrow>
      Printed err \<in> set (Run sinks cs)) \<and>
   Run sinks (Recv msg # cs) = dispatch 0 sinks msg @ Run sinks cs"
  using received_by_Run [of i sinks cs] Printed_Run [of i sinks msg cs err]
  by simp

theorem delivery_isolated_witness:
  "received_by 1 (Run [failing_sink, working_sink]
     [Recv (msg_of_title ''a''), Recv (msg_of_title ''b''), CtxDone, Recv (msg_of_title ''c'')]) =
     [msg_of_title ''a'', msg_of_title ''b''] \<and>
   received_by 0 (Run [failing_sink, working_sink]
     [Recv (msg_of_title ''a''), Recv (msg_of_title ''b''), CtxDone, Recv (msg_of_title ''c'')]) =
     [msg_of_title ''a'', msg_of_title ''b''] \<and>
   Printed ''delivery failed'' \<in> set (Run [failing_sink, working_sink]
     [Recv (msg_of_title ''a''), Recv (msg_of_title ''b''), CtxDone, Recv (msg_of_title ''c'')])"
  using delivery_isolated [of 1 "[failing_sink, working_sink]"
      "[Recv (msg_of_title ''a''), Recv (msg_of_title ''b''), CtxDone, Recv (msg_of_title ''c'')]"
      "msg_of_title ''a''" "''delivery failed''"]
    delivery_isolated [of 0 "[failing_sink, working_sink]"
      "[Recv (msg_of_title ''a''), Recv (msg_of_title ''b''), CtxDone, Recv (msg_of_title ''c'')]"
      "msg_of_title ''a''" "''delivery failed''"]
  by (simp add: failing_sink_def)

end
